theory Spec2Isabelle
  imports Complex_Main "HOL-Library.Log_Nat"
begin

section \<open>Time and durations (Go package time)\<close>

text \<open>
  A shallow embedding of the numeric core of astroglide: the altitude event solver, the
  Sun and Moon position models, the Moon's horizon, and the functions of the public API
  that compose them.

  In the solver a \<^verbatim>\<open>time.Time\<close> is modelled by the instant it denotes, an integer
  number of nanoseconds counted from the Unix epoch (the zone attached to a Go time value
  only affects how it is displayed).  A \<^verbatim>\<open>time.Duration\<close> is a signed 64-bit
  count of nanoseconds.  \<^verbatim>\<open>float64\<close> values are modelled by real numbers:
  infinities and NaN are outside the model, and so is rounding, except in the last
  statements of the two position functions, where it decides the range of the result and
  is modelled as binary64 rounding to nearest.  Go's \<^verbatim>\<open>int\<close> is modelled by
  the integers; the arithmetic the solver does on sample counts and durations stays within
  64 bits whenever its inputs do.

  Where two packages of the source use one name, the model prefixes it (\<open>sun_\<close>,
  \<open>moon_\<close>), and where two records have a field of the same name, the later one is
  renamed (\<open>eqRA\<close>, \<open>eqDec\<close>, \<open>mRise\<close>, \<open>mSet\<close>, \<open>PhaseTime\<close>).
\<close>

type_synonym Time = int
type_synonym Duration = int

definition maxDuration :: Duration where
  "maxDuration = 2 ^ 63 - 1"

definition minDuration :: Duration where
  "minDuration = - (2 ^ 63)"

definition Second :: Duration where
  "Second = 1000000000"

definition Hour :: Duration where
  "Hour = 3600 * Second"

text \<open>\<^verbatim>\<open>t.Sub(u)\<close>: the difference, saturated to the range of a Duration.\<close>

definition Sub :: "Time \<Rightarrow> Time \<Rightarrow> Duration" where
  "Sub t u = (if t - u > maxDuration then maxDuration
              else if t - u < minDuration then minDuration
              else t - u)"

text \<open>\<^verbatim>\<open>t.Add(d)\<close> and \<^verbatim>\<open>t.Before(u)\<close>.\<close>

definition Add :: "Time \<Rightarrow> Duration \<Rightarrow> Time" where
  "Add t d = t + d"

definition Before :: "Time \<Rightarrow> Time \<Rightarrow> bool" where
  "Before t u = (t < u)"

text \<open>Go's integer division truncates towards zero.\<close>

definition quot :: "int \<Rightarrow> int \<Rightarrow> int" where
  "quot a b = sgn a * sgn b * (\<bar>a\<bar> div \<bar>b\<bar>)"

text \<open>The zero value of \<^verbatim>\<open>time.Time\<close>: January 1 of year 1, 00:00 UTC, counted
  from the Unix epoch.\<close>

definition zeroTime :: Time where
  "zeroTime = - 62135596800 * Second"

section \<open>The altitude event solver (internal/solver/altitude.go)\<close>

type_synonym AltitudeFunc = "Time \<Rightarrow> real"

text \<open>\<^verbatim>\<open>type EventType int\<close> with the two named constants; any other integer
  takes the default branch of \<^verbatim>\<open>hasCrossing\<close>.\<close>

type_synonym EventType = int

definition CrossingUp :: EventType where
  "CrossingUp = 0"

definition CrossingDown :: EventType where
  "CrossingDown = 1"

record Result =
  Time :: Time
  OK :: bool

text \<open>\<^verbatim>\<open>Result{OK: false}\<close>: the Time field keeps its zero value.\<close>

definition notFound :: Result where
  "notFound = \<lparr>Time = zeroTime, OK = False\<rparr>"

definition hasCrossing :: "real \<Rightarrow> real \<Rightarrow> EventType \<Rightarrow> bool" where
  "hasCrossing a1 a2 eventType =
     (if eventType = CrossingUp then a1 < 0 \<and> a2 \<ge> 0
      else if eventType = CrossingDown then a1 > 0 \<and> a2 \<le> 0
      else a1 * a2 \<le> 0)"

text \<open>
  The loop of \<^verbatim>\<open>bisect\<close>, \<^verbatim>\<open>for b.Sub(a) > tol { ... }\<close>, on its state
  \<open>(a, b, altA, altB)\<close>.  Nothing in the source bounds the number of iterations, so the
  loop is a partial function: \<open>None\<close> is a loop that never exits, \<open>Some (a, b)\<close> the
  bracket at exit.
\<close>

partial_function (option) bisect_loop ::
  "AltitudeFunc \<Rightarrow> real \<Rightarrow> EventType \<Rightarrow> Duration \<Rightarrow> Time \<Rightarrow> Time \<Rightarrow> real \<Rightarrow> real
     \<Rightarrow> (Time \<times> Time) option" where
  "bisect_loop f targetDeg eventType tol a b altA altB =
     (if Sub b a > tol then
        (let mid = Add a (quot (Sub b a) 2);
             altM = f mid - targetDeg
         in if hasCrossing altA altM eventType
            then bisect_loop f targetDeg eventType tol a mid altA altM
            else bisect_loop f targetDeg eventType tol mid b altM altB)
      else Some (a, b))"

definition bisect ::
  "AltitudeFunc \<Rightarrow> Time \<Rightarrow> Time \<Rightarrow> real \<Rightarrow> EventType \<Rightarrow> Duration \<Rightarrow> Result option" where
  "bisect f a b targetDeg eventType tol =
     (let altA = f a - targetDeg;
          altB = f b - targetDeg
      in if \<not> hasCrossing altA altB eventType then Some notFound
         else (case bisect_loop f targetDeg eventType tol a b altA altB of
                 None \<Rightarrow> None
               | Some (a', b') \<Rightarrow> Some \<lparr>Time = Add a' (quot (Sub b' a') 2), OK = True\<rparr>))"

text \<open>
  The sampling loop of \<^verbatim>\<open>FindAltitudeEvent\<close>,
  \<^verbatim>\<open>for i := 1; i < steps; i++ { ... }\<close>, on its state \<open>(i, prevT, prevAlt)\<close>.
\<close>

function scan ::
  "AltitudeFunc \<Rightarrow> Time \<Rightarrow> Duration \<Rightarrow> real \<Rightarrow> EventType \<Rightarrow> int \<Rightarrow> Duration
     \<Rightarrow> int \<Rightarrow> Time \<Rightarrow> real \<Rightarrow> Result option" where
  "scan f start interval targetDeg eventType steps tol i prevT prevAlt =
     (if i < steps then
        (let t = Add start (i * interval);
             alt = f t - targetDeg
         in if hasCrossing prevAlt alt eventType
            then bisect f prevT t targetDeg eventType tol
            else scan f start interval targetDeg eventType steps tol (i + 1) t alt)
      else Some notFound)"
  by pat_completeness auto
termination
  by (relation "measure (\<lambda>(f, start, interval, targetDeg, eventType, steps, tol, i, prevT, prevAlt).
        nat (steps - i))") auto

definition FindAltitudeEvent ::
  "AltitudeFunc \<Rightarrow> Time \<Rightarrow> Time \<Rightarrow> real \<Rightarrow> EventType \<Rightarrow> int \<Rightarrow> Duration \<Rightarrow> Result option" where
  "FindAltitudeEvent f start end targetDeg eventType steps tol =
     (if \<not> Before start end then Some notFound
      else
        (let steps' = (if steps < 2 then 2 else steps);
             interval = quot (Sub end start) (steps' - 1);
             prevT = start;
             prevAlt = f prevT - targetDeg
         in scan f start interval targetDeg eventType steps' tol 1 prevT prevAlt))"

text \<open>
  Names for what the sampling loop computes: the clamped sample count, the sampling
  interval, the \<open>i\<close>-th sample instant \<^verbatim>\<open>start.Add(time.Duration(i) * interval)\<close>, the
  value \<^verbatim>\<open>f(t) - targetDeg\<close> there, and whether the samples \<open>i - 1\<close> and \<open>i\<close> bracket
  a crossing.
\<close>

definition sampleCount :: "int \<Rightarrow> int" where
  "sampleCount steps = (if steps < 2 then 2 else steps)"

definition sampleInterval :: "Time \<Rightarrow> Time \<Rightarrow> int \<Rightarrow> Duration" where
  "sampleInterval start end steps = quot (Sub end start) (sampleCount steps - 1)"

definition sampleTime :: "Time \<Rightarrow> Time \<Rightarrow> int \<Rightarrow> int \<Rightarrow> Time" where
  "sampleTime start end steps i = Add start (i * sampleInterval start end steps)"

definition sampleValue :: "AltitudeFunc \<Rightarrow> Time \<Rightarrow> Time \<Rightarrow> real \<Rightarrow> int \<Rightarrow> int \<Rightarrow> real" where
  "sampleValue f start end targetDeg steps i = f (sampleTime start end steps i) - targetDeg"

definition bracketAt ::
  "AltitudeFunc \<Rightarrow> Time \<Rightarrow> Time \<Rightarrow> real \<Rightarrow> EventType \<Rightarrow> int \<Rightarrow> int \<Rightarrow> bool" where
  "bracketAt f start end targetDeg eventType steps i =
     hasCrossing (sampleValue f start end targetDeg steps (i - 1))
                 (sampleValue f start end targetDeg steps i) eventType"

text \<open>
  The number of evaluations of the altitude function made by the sampling loop from
  index \<open>i\<close> on (one per iteration, up to and including the iteration that finds a
  bracket), and by the whole scan of \<^verbatim>\<open>FindAltitudeEvent\<close> (one more, for the
  first sample).
\<close>

function scan_evals ::
  "AltitudeFunc \<Rightarrow> Time \<Rightarrow> Duration \<Rightarrow> real \<Rightarrow> EventType \<Rightarrow> int \<Rightarrow> int \<Rightarrow> real \<Rightarrow> nat" where
  "scan_evals f start interval targetDeg eventType steps i prevAlt =
     (if i < steps then
        (let t = Add start (i * interval);
             alt = f t - targetDeg
         in if hasCrossing prevAlt alt eventType then 1
            else 1 + scan_evals f start interval targetDeg eventType steps (i + 1) alt)
      else 0)"
  by pat_completeness auto
termination
  by (relation "measure (\<lambda>(f, start, interval, targetDeg, eventType, steps, i, prevAlt).
        nat (steps - i))") auto

definition FindAltitudeEvent_evals ::
  "AltitudeFunc \<Rightarrow> Time \<Rightarrow> Time \<Rightarrow> real \<Rightarrow> EventType \<Rightarrow> int \<Rightarrow> nat" where
  "FindAltitudeEvent_evals f start end targetDeg eventType steps =
     (if \<not> Before start end then 0
      else 1 + scan_evals f start (sampleInterval start end steps) targetDeg eventType
                 (sampleCount steps) 1 (f start - targetDeg))"

text \<open>A test altitude function: the altitude in degrees is the instant in nanoseconds.\<close>

definition ramp :: AltitudeFunc where
  "ramp t = of_int t"

text \<open>A second one, which rises through zero twice in every 100 nanoseconds: a sawtooth of
  period 50 from -12 to 37 degrees.\<close>

definition sawtooth :: AltitudeFunc where
  "sawtooth t = of_int (t mod 50 - 12)"

section \<open>Calendar and zones (Go package time)\<close>

text \<open>
  This section models the part of Go's standard library that the orchestrator calls; it is
  not code of the repository.  Dates are those of the proleptic Gregorian calendar, which
  Go's time package uses, converted to and from day numbers counted from 1970-01-01 by the
  usual era-based formulas.  \<open>days_from_civil\<close> is linear in the day of the month, so
  a day outside the month overflows into the next months as \<^verbatim>\<open>time.Date\<close>
  normalises it.
\<close>

definition days_from_civil :: "int \<Rightarrow> int \<Rightarrow> int \<Rightarrow> int" where
  "days_from_civil y m d =
     (let y' = (if m \<le> 2 then y - 1 else y);
          era = y' div 400;
          yoe = y' - era * 400;
          doy = (153 * (m + (if m > 2 then - 3 else 9)) + 2) div 5 + d - 1;
          doe = yoe * 365 + yoe div 4 - yoe div 100 + doy
      in era * 146097 + doe - 719468)"

definition civil_from_days :: "int \<Rightarrow> int \<times> int \<times> int" where
  "civil_from_days z =
     (let z' = z + 719468;
          era = z' div 146097;
          doe = z' - era * 146097;
          yoe = (doe - doe div 1460 + doe div 36524 - doe div 146096) div 365;
          y = yoe + era * 400;
          doy = doe - (365 * yoe + yoe div 4 - yoe div 100);
          mp = (5 * doy + 2) div 153;
          d = doy - (153 * mp + 2) div 5 + 1;
          m = (if mp < 10 then mp + 3 else mp - 9)
      in (if m \<le> 2 then y + 1 else y, m, d))"

text \<open>
  A \<^verbatim>\<open>*time.Location\<close>: the offset (seconds east of UTC) in force before the
  first transition, and the transitions in increasing order, each with the Unix second at
  which it happens and the offset in force from then on.  \<open>lookup\<close> returns the offset
  in force at a Unix second and the interval \<open>[start, end)\<close> on which it is in
  force, as \<^verbatim>\<open>(*Location).lookup\<close> does.
\<close>

record Location =
  initialOffset :: int
  transitions :: "(int \<times> int) list"

definition UTC :: Location where
  "UTC = \<lparr>initialOffset = 0, transitions = []\<rparr>"

fun lookup_from :: "int \<Rightarrow> int \<Rightarrow> (int \<times> int) list \<Rightarrow> int \<Rightarrow> int \<times> int \<times> int" where
  "lookup_from off start [] sec = (off, start, 2 ^ 63 - 1)"
| "lookup_from off start ((w, off') # rest) sec =
     (if sec < w then (off, start, w) else lookup_from off' w rest sec)"

definition lookup :: "Location \<Rightarrow> int \<Rightarrow> int \<times> int \<times> int" where
  "lookup l sec = lookup_from (initialOffset l) (- (2 ^ 63)) (transitions l) sec"

text \<open>A \<^verbatim>\<open>time.Time\<close> value as the orchestrator handles it: an instant together
  with the Location it is displayed in.\<close>

record GoTime =
  instant :: Time
  zone :: Location

definition zeroGoTime :: GoTime where
  "zeroGoTime = \<lparr>instant = zeroTime, zone = UTC\<rparr>"

text \<open>\<^verbatim>\<open>t.In(loc)\<close> and \<^verbatim>\<open>t.UTC()\<close> keep the instant.\<close>

definition In :: "GoTime \<Rightarrow> Location \<Rightarrow> GoTime" where
  "In t l = t\<lparr>zone := l\<rparr>"

definition toUTC :: "GoTime \<Rightarrow> GoTime" where
  "toUTC t = t\<lparr>zone := UTC\<rparr>"

text \<open>The seconds of the wall clock of \<open>t\<close> in its Location, counted from 1970-01-01
  00:00 of that wall clock.\<close>

definition localSeconds :: "GoTime \<Rightarrow> int" where
  "localSeconds t =
     (let unix = instant t div 1000000000
      in unix + fst (lookup (zone t) unix))"

text \<open>\<^verbatim>\<open>t.Date()\<close>, \<^verbatim>\<open>t.Hour()\<close>, \<^verbatim>\<open>t.Minute()\<close>,
  \<^verbatim>\<open>t.Second()\<close>, \<^verbatim>\<open>t.Nanosecond()\<close>.\<close>

definition DateOf :: "GoTime \<Rightarrow> int \<times> int \<times> int" where
  "DateOf t = civil_from_days (localSeconds t div 86400)"

definition HourOf :: "GoTime \<Rightarrow> int" where
  "HourOf t = (localSeconds t mod 86400) div 3600"

definition MinuteOf :: "GoTime \<Rightarrow> int" where
  "MinuteOf t = (localSeconds t mod 3600) div 60"

definition SecondOf :: "GoTime \<Rightarrow> int" where
  "SecondOf t = localSeconds t mod 60"

definition NanosecondOf :: "GoTime \<Rightarrow> int" where
  "NanosecondOf t = instant t mod 1000000000"

text \<open>
  \<^verbatim>\<open>time.Date(year, month, day, hour, min, sec, nsec, loc)\<close>.  The wall clock
  reading is first taken as if it were UTC; the offset found there is subtracted, and when
  the result falls outside the interval on which that offset is in force, the offset in
  force at the result is used instead:
  \<^verbatim>\<open>
  _, offset, start, end, _ := l.lookup(unix)
  if offset != 0 {
      utc := unix - int64(offset)
      if utc < start || utc >= end {
          _, offset, _, _, _ = l.lookup(utc)
      }
      unix -= int64(offset)
  }
  \<close>
\<close>

definition Date :: "int \<Rightarrow> int \<Rightarrow> int \<Rightarrow> int \<Rightarrow> int \<Rightarrow> int \<Rightarrow> int \<Rightarrow> Location \<Rightarrow> GoTime" where
  "Date year month day hour minute sec nsec l =
     (let y = year + (month - 1) div 12;
          m = (month - 1) mod 12 + 1;
          s = sec + nsec div 1000000000;
          ns = nsec mod 1000000000;
          unix = days_from_civil y m day * 86400 + hour * 3600 + minute * 60 + s;
          (offset, start, end) = lookup l unix;
          unix' = (if offset \<noteq> 0 then
                     (let utc = unix - offset;
                          offset' = (if utc < start \<or> utc \<ge> end then fst (lookup l utc)
                                     else offset)
                      in unix - offset')
                   else unix)
      in \<lparr>instant = unix' * 1000000000 + ns, zone = l\<rparr>)"

section \<open>Time and angle helpers (package timeutil)\<close>

text \<open>Go's \<^verbatim>\<open>%\<close> on integers and \<^verbatim>\<open>math.Mod\<close> on floats both take the sign of
  the dividend.\<close>

definition rem :: "int \<Rightarrow> int \<Rightarrow> int" where
  "rem a b = a - b * quot a b"

definition trunc :: "real \<Rightarrow> int" where
  "trunc x = (if x \<ge> 0 then \<lfloor>x\<rfloor> else \<lceil>x\<rceil>)"

definition Mod :: "real \<Rightarrow> real \<Rightarrow> real" where
  "Mod x y = x - y * of_int (trunc (x / y))"

text \<open>\<^verbatim>\<open>d.Hours()\<close>.\<close>

definition Hours :: "Duration \<Rightarrow> real" where
  "Hours d = of_int (quot d Hour) + of_int (rem d Hour) / (60 * 60 * 1000000000)"

text \<open>The J2000.0 epoch, 2000-01-01 12:00:00 UTC.\<close>

definition j2000 :: Time where
  "j2000 = instant (Date 2000 1 1 12 0 0 0 UTC)"

definition DaysSinceJ2000 :: "Time \<Rightarrow> real" where
  "DaysSinceJ2000 t = Hours (Sub t j2000) / 24"

definition JulianDay :: "Time \<Rightarrow> real" where
  "JulianDay t =
     (let u = \<lparr>instant = t, zone = UTC\<rparr>;
          (year, month, day) = DateOf u;
          hour = of_int (HourOf u) + of_int (MinuteOf u) / 60 + of_int (SecondOf u) / 3600
                 + of_int (NanosecondOf u) / (3600 * 1000000000);
          y = (if month \<le> 2 then year - 1 else year);
          m = (if month \<le> 2 then month + 12 else month);
          A = quot y 100;
          B = 2 - A + quot A 4
      in of_int \<lfloor>365.25 * of_int (y + 4716) :: real\<rfloor>
         + of_int \<lfloor>30.6001 * of_int (m + 1) :: real\<rfloor>
         + of_int day + of_int B - 1524.5 + hour / 24)"

definition JulianCenturies :: "Time \<Rightarrow> real" where
  "JulianCenturies t = (JulianDay t - 2451545) / 36525"

definition Deg2Rad :: "real \<Rightarrow> real" where
  "Deg2Rad d = d * pi / 180"

definition Rad2Deg :: "real \<Rightarrow> real" where
  "Rad2Deg r = r * 180 / pi"

definition Normalize360 :: "real \<Rightarrow> real" where
  "Normalize360 d = (let d' = Mod d 360 in if d' < 0 then d' + 360 else d')"

text \<open>\<^verbatim>\<open>math.Atan2(y, x)\<close> on real numbers, with \<open>Atan2 0 0 = 0\<close> as in Go.\<close>

definition Atan2 :: "real \<Rightarrow> real \<Rightarrow> real" where
  "Atan2 y x =
     (if x > 0 then arctan (y / x)
      else if x < 0 then (if y \<ge> 0 then arctan (y / x) + pi else arctan (y / x) - pi)
      else if y > 0 then pi / 2
      else if y < 0 then - (pi / 2)
      else 0)"

section \<open>Binary64 rounding\<close>

text \<open>
  Rounding of a real number to the nearest binary64 value, ties to even, as the
  floating-point operations of Go do.  \<open>exponent64 x\<close> is the binary exponent of a
  non-zero \<open>x\<close>, the \<open>e\<close> with \<open>2 ^ e \<le> \<bar>x\<bar> < 2 ^ (e + 1)\<close>; the spacing of the binary64
  values around \<open>x\<close> is \<open>2 ^ (e - 52)\<close>, and \<open>2 ^ (- 1074)\<close> below the normal range.
  Overflow to infinity is outside the model.
\<close>

definition exponent64 :: "real \<Rightarrow> int" where
  "exponent64 x =
     (if \<bar>x\<bar> \<ge> 1 then bitlen \<lfloor>\<bar>x\<bar>\<rfloor> - 1 else - bitlen (\<lceil>1 / \<bar>x\<bar>\<rceil> - 1))"

definition roundHalfEven :: "real \<Rightarrow> int" where
  "roundHalfEven q =
     (let f = \<lfloor>q\<rfloor>;
          d = q - of_int f
      in if d < 1 / 2 then f
         else if d > 1 / 2 then f + 1
         else if even f then f else f + 1)"

definition round64 :: "real \<Rightarrow> real" where
  "round64 x =
     (if x = 0 then 0
      else (let e = max (exponent64 x) (- 1022);
                ulp = 2 powi (e - 52)
            in of_int (roundHalfEven (x / ulp)) * ulp))"

text \<open>\<^verbatim>\<open>math.Pi\<close> as a \<^verbatim>\<open>float64\<close>: \<^verbatim>\<open>0x1.921fb54442d18p+1\<close>.  The constant
  \<^verbatim>\<open>2 * math.Pi\<close> is twice that value.\<close>

definition pi64 :: real where
  "pi64 = 884279719003555 / 2 ^ 48"

text \<open>\<^verbatim>\<open>timeutil.Rad2Deg\<close>, \<^verbatim>\<open>r * 180.0 / math.Pi\<close>, with both operations
  rounded.\<close>

definition Rad2Deg64 :: "real \<Rightarrow> real" where
  "Rad2Deg64 r = round64 (round64 (r * 180) / pi64)"

text \<open>\<^verbatim>\<open>math.Atan2\<close> and \<^verbatim>\<open>math.Asin\<close> return binary64 values; they are taken to
  return the exact value, rounded.\<close>

definition mathAtan2 :: "real \<Rightarrow> real \<Rightarrow> real" where
  "mathAtan2 y x = round64 (Atan2 y x)"

definition mathAsin :: "real \<Rightarrow> real" where
  "mathAsin z = round64 (arcsin z)"

text \<open>
  The last statements of \<^verbatim>\<open>GeocentricEquatorialApprox\<close>, the same in both
  packages, on the values \<open>ra\<close> and \<open>dec\<close> that \<^verbatim>\<open>math.Atan2\<close> and
  \<^verbatim>\<open>math.Asin\<close> returned:
  \<^verbatim>\<open>
  if ra < 0 {
      ra += 2 * math.Pi
  }
  return Equatorial{RA: timeutil.Rad2Deg(ra), Dec: timeutil.Rad2Deg(dec)}
  \<close>
\<close>

record Equatorial =
  RA :: real
  Dec :: real

definition equatorialOfAngles :: "real \<Rightarrow> real \<Rightarrow> Equatorial" where
  "equatorialOfAngles ra dec =
     (let ra' = (if ra < 0 then round64 (ra + 2 * pi64) else ra)
      in \<lparr>RA = Rad2Deg64 ra', Dec = Rad2Deg64 dec\<rparr>)"

text \<open>
  The values of \<^verbatim>\<open>math.Atan2\<close> in the two position functions at two instants, in a
  binary64 evaluation of the source: \<^verbatim>\<open>-0x1.28df703e9b1bcp-52\<close> for the Moon at
  the Unix nanosecond 942972894871843052 (19 November 1999), and
  \<^verbatim>\<open>-0x1.4f31627641ddap-57\<close> for the Sun at the Unix nanosecond
  -2738624284401234495 (20 March 1883).
\<close>

definition moonAtan2Value :: real where
  "moonAtan2Value = - 1305660410719343 / 2 ^ 102"

definition sunAtan2Value :: real where
  "sunAtan2Value = - 2948388004957933 / 2 ^ 108"

section \<open>Sun position (internal/sun/position.go)\<close>

text \<open>The first part of \<^verbatim>\<open>GeocentricEquatorialApprox\<close>: the unit vector \<open>(x, y, z)\<close>
  towards the Sun in equatorial coordinates.\<close>

definition sun_equatorialVector :: "Time \<Rightarrow> real \<times> real \<times> real" where
  "sun_equatorialVector t =
     (let d = DaysSinceJ2000 t;
          g = Deg2Rad (357.529 + 0.98560028 * d);
          q = Deg2Rad (280.459 + 0.98564736 * d);
          L = q + Deg2Rad 1.915 * sin g + Deg2Rad 0.020 * sin (2 * g);
          eps = Deg2Rad (23.439 - 0.00000036 * d);
          x = cos L;
          y = cos eps * sin L;
          z = sin eps * sin L
      in (x, y, z))"

definition sun_GeocentricEquatorialApprox :: "Time \<Rightarrow> Equatorial" where
  "sun_GeocentricEquatorialApprox t =
     (let (x, y, z) = sun_equatorialVector t;
          ra = mathAtan2 y x;
          dec = mathAsin z
      in equatorialOfAngles ra dec)"

section \<open>Sun events (internal/sun)\<close>

definition StandardZenith :: real where
  "StandardZenith = 90.833"

text \<open>
  \<^verbatim>\<open>eventsForDateAtAltitude\<close>.  The first argument stands for the package's
  \<^verbatim>\<open>apparentAltitude(lat, lon, t)\<close>, the Sun's altitude in degrees; the solver is
  run on the closure over \<open>lat\<close> and \<open>lon\<close>.  The result is \<open>None\<close> when a search
  does not return.
\<close>

definition sun_eventsForDateAtAltitude ::
  "(real \<Rightarrow> real \<Rightarrow> Time \<Rightarrow> real) \<Rightarrow> real \<Rightarrow> real \<Rightarrow> GoTime \<Rightarrow> real
     \<Rightarrow> (GoTime \<times> GoTime \<times> bool \<times> bool) option" where
  "sun_eventsForDateAtAltitude apparentAltitude lat lon date targetAlt =
     (let l = zone date;
          (year, month, day) = DateOf date;
          startLocal = Date year month day 0 0 0 0 l;
          endLocal = Add (instant startLocal) (24 * Hour);
          altFunc = (\<lambda>t. apparentAltitude lat lon t);
          steps = 48;
          tol = 30 * Second
      in case FindAltitudeEvent altFunc (instant startLocal) endLocal targetAlt CrossingUp steps tol of
           None \<Rightarrow> None
         | Some riseRes \<Rightarrow>
            (case FindAltitudeEvent altFunc (instant startLocal) endLocal targetAlt CrossingDown steps tol of
               None \<Rightarrow> None
             | Some setRes \<Rightarrow>
                 Some (if OK riseRes then \<lparr>instant = Time riseRes, zone = UTC\<rparr> else zeroGoTime,
                       if OK setRes then \<lparr>instant = Time setRes, zone = UTC\<rparr> else zeroGoTime,
                       OK riseRes, OK setRes)))"

definition sun_RiseSetForDate ::
  "(real \<Rightarrow> real \<Rightarrow> Time \<Rightarrow> real) \<Rightarrow> real \<Rightarrow> real \<Rightarrow> GoTime \<Rightarrow> real
     \<Rightarrow> (GoTime \<times> GoTime \<times> bool \<times> bool) option" where
  "sun_RiseSetForDate apparentAltitude lat lon date zenith =
     (let targetAlt = 90 - zenith
      in sun_eventsForDateAtAltitude apparentAltitude lat lon date targetAlt)"

definition TwilightForDate ::
  "(real \<Rightarrow> real \<Rightarrow> Time \<Rightarrow> real) \<Rightarrow> real \<Rightarrow> real \<Rightarrow> GoTime \<Rightarrow> real
     \<Rightarrow> (GoTime \<times> GoTime \<times> bool \<times> bool) option" where
  "TwilightForDate apparentAltitude lat lon date targetAlt =
     sun_eventsForDateAtAltitude apparentAltitude lat lon date targetAlt"

section \<open>Moon position (internal/moon/position.go)\<close>

text \<open>The first part of \<^verbatim>\<open>GeocentricEquatorialApprox\<close>: the unit vector
  \<open>(xEq, yEq, zEq)\<close> towards the Moon in equatorial coordinates.\<close>

definition moon_equatorialVector :: "Time \<Rightarrow> real \<times> real \<times> real" where
  "moon_equatorialVector t =
     (let d = DaysSinceJ2000 t;
          Lprime = Normalize360 (218.3164477 + 13.17639648 * d);
          M = Normalize360 (357.5291092 + 0.98560028 * d);
          Mm = Normalize360 (134.9633964 + 13.06499295 * d);
          D = Normalize360 (297.8501921 + 12.19074912 * d);
          F = Normalize360 (93.2720950 + 13.22935024 * d);
          Lr = Deg2Rad Lprime;
          Mr = Deg2Rad M;
          Mmr = Deg2Rad Mm;
          Dr = Deg2Rad D;
          Fr = Deg2Rad F;
          lon = Lr + Deg2Rad 6.289 * sin Mmr + Deg2Rad 1.274 * sin (2 * Dr - Mmr)
                + Deg2Rad 0.658 * sin (2 * Dr) + Deg2Rad 0.214 * sin (2 * Mmr)
                - Deg2Rad 0.186 * sin Mr - Deg2Rad 0.114 * sin (2 * Fr);
          lat = Deg2Rad 5.128 * sin Fr + Deg2Rad 0.280 * sin (Mmr + Fr)
                + Deg2Rad 0.277 * sin (Mmr - Fr) + Deg2Rad 0.173 * sin (2 * Dr - Fr);
          eps = Deg2Rad (23.439291 - 0.0000137 * d);
          x = cos lat * cos lon;
          y = cos lat * sin lon;
          z = sin lat;
          xEq = x;
          yEq = y * cos eps - z * sin eps;
          zEq = y * sin eps + z * cos eps
      in (xEq, yEq, zEq))"

definition moon_GeocentricEquatorialApprox :: "Time \<Rightarrow> Equatorial" where
  "moon_GeocentricEquatorialApprox t =
     (let (xEq, yEq, zEq) = moon_equatorialVector t;
          ra = mathAtan2 yEq xEq;
          dec = mathAsin zEq
      in equatorialOfAngles ra dec)"

section \<open>Moon events (internal/moon/moon.go)\<close>

definition moonSetExtraDropDeg :: real where
  "moonSetExtraDropDeg = 0.16"

definition ApparentHorizonAltitudeMoon :: "real \<Rightarrow> real" where
  "ApparentHorizonAltitudeMoon distanceKm =
     (let meanDistKm = 384400;
          baseHorizon = - 0.90;
          kScale = 0.6
      in if distanceKm \<le> 0 then baseHorizon
         else (let frac = (distanceKm - meanDistKm) / meanDistKm
               in baseHorizon - kScale * frac))"

record EquatorialDistance =
  eqRA :: real
  eqDec :: real
  Distance :: real

definition GeocentricEquatorialWithDistanceApprox :: "Time \<Rightarrow> EquatorialDistance" where
  "GeocentricEquatorialWithDistanceApprox t =
     (let eq = moon_GeocentricEquatorialApprox t;
          T = JulianCenturies t;
          D = Normalize360 (297.8501921 + 445267.1114034 * T);
          M1 = Normalize360 (134.9633964 + 477198.8675055 * T);
          Dr = Deg2Rad D;
          M1r = Deg2Rad M1;
          delta = 385000.56 - 20905.0 * cos M1r - 3699.0 * cos (2 * Dr - M1r)
                  - 2956.0 * cos (2 * Dr) - 570.0 * cos (2 * M1r) - 246.0 * cos (2 * Dr + M1r)
      in \<lparr>eqRA = RA eq, eqDec = Dec eq, Distance = delta\<rparr>)"

text \<open>
  The two closures of \<^verbatim>\<open>RiseSetForDate\<close>.  The first argument stands for the
  package's \<^verbatim>\<open>apparentAltitude(lat, lon, t)\<close>, the Moon's topocentric altitude in
  degrees.
\<close>

definition altFuncRise :: "(real \<Rightarrow> real \<Rightarrow> Time \<Rightarrow> real) \<Rightarrow> real \<Rightarrow> real \<Rightarrow> Time \<Rightarrow> real" where
  "altFuncRise apparentAltitude lat lon t =
     (let eq = GeocentricEquatorialWithDistanceApprox t;
          alt = apparentAltitude lat lon t;
          horizon = ApparentHorizonAltitudeMoon (Distance eq)
      in alt - horizon)"

definition altFuncSet :: "(real \<Rightarrow> real \<Rightarrow> Time \<Rightarrow> real) \<Rightarrow> real \<Rightarrow> real \<Rightarrow> Time \<Rightarrow> real" where
  "altFuncSet apparentAltitude lat lon t =
     (let eq = GeocentricEquatorialWithDistanceApprox t;
          alt = apparentAltitude lat lon t;
          horizon = ApparentHorizonAltitudeMoon (Distance eq) + moonSetExtraDropDeg
      in alt - horizon)"

text \<open>The horizon each closure subtracts from the altitude.\<close>

definition horizonRise :: "Time \<Rightarrow> real" where
  "horizonRise t = ApparentHorizonAltitudeMoon (Distance (GeocentricEquatorialWithDistanceApprox t))"

definition horizonSet :: "Time \<Rightarrow> real" where
  "horizonSet t =
     ApparentHorizonAltitudeMoon (Distance (GeocentricEquatorialWithDistanceApprox t))
       + moonSetExtraDropDeg"

record moon_RiseSet =
  mRise :: GoTime
  mSet :: GoTime

definition moon_RiseSetForDate ::
  "(real \<Rightarrow> real \<Rightarrow> Time \<Rightarrow> real) \<Rightarrow> real \<Rightarrow> real \<Rightarrow> GoTime
     \<Rightarrow> (moon_RiseSet \<times> bool \<times> bool) option" where
  "moon_RiseSetForDate apparentAltitude lat lon date =
     (let l = zone date;
          (year, month, day) = DateOf date;
          startLocal = Date year month day 0 0 0 0 l;
          endLocal = Add (instant startLocal) (24 * Hour);
          targetAlt = 0;
          steps = 48;
          tol = 30 * Second
      in case FindAltitudeEvent (altFuncRise apparentAltitude lat lon) (instant startLocal) endLocal
                targetAlt CrossingUp steps tol of
           None \<Rightarrow> None
         | Some riseRes \<Rightarrow>
            (case FindAltitudeEvent (altFuncSet apparentAltitude lat lon) (instant startLocal) endLocal
                    targetAlt CrossingDown steps tol of
               None \<Rightarrow> None
             | Some setRes \<Rightarrow>
                 Some (\<lparr>mRise = (if OK riseRes then \<lparr>instant = Time riseRes, zone = UTC\<rparr>
                                  else zeroGoTime),
                        mSet = (if OK setRes then \<lparr>instant = Time setRes, zone = UTC\<rparr>
                                else zeroGoTime)\<rparr>,
                       OK riseRes, OK setRes)))"

section \<open>The public API (package astroglide)\<close>

type_synonym Body = int

definition Sun :: Body where
  "Sun = 0"

definition Moon :: Body where
  "Moon = 1"

type_synonym TwilightKind = int

definition TwilightCivil :: TwilightKind where
  "TwilightCivil = 0"

definition TwilightNautical :: TwilightKind where
  "TwilightNautical = 1"

definition TwilightAstronomical :: TwilightKind where
  "TwilightAstronomical = 2"

record Coordinates =
  Lat :: real
  Lon :: real
  Elevation :: real

record RiseSet =
  Rise :: GoTime
  Set :: GoTime

record MoonPhase =
  PhaseTime :: GoTime
  Fraction :: real
  Elongation :: real
  Waxing :: bool
  Name :: string

datatype error =
  ErrNoRiseNoSet
| ErrNotImplemented
| ErrUnknownBody int
| ErrUnknownTwilightKind int

definition withLocalDate :: "GoTime \<Rightarrow> int \<Rightarrow> int \<Rightarrow> int \<Rightarrow> GoTime" where
  "withLocalDate t year month day =
     (let l = zone t
      in Date year month day (HourOf t) (MinuteOf t) (SecondOf t) (NanosecondOf t) l)"

definition sunRiseSet ::
  "(real \<Rightarrow> real \<Rightarrow> Time \<Rightarrow> real) \<Rightarrow> Coordinates \<Rightarrow> GoTime \<Rightarrow> (error + RiseSet) option" where
  "sunRiseSet sunAltitude loc date =
     (let locTZ = zone date;
          (year, month, day) = DateOf date
      in case sun_RiseSetForDate sunAltitude (Lat loc) (Lon loc) date StandardZenith of
           None \<Rightarrow> None
         | Some (sunriseUTC, sunsetUTC, okRise, okSet) \<Rightarrow>
             Some (if \<not> okRise \<and> \<not> okSet then Inl ErrNoRiseNoSet
                   else Inr \<lparr>Rise = (if okRise then withLocalDate (In sunriseUTC locTZ) year month day
                                     else zeroGoTime),
                             Set = (if okSet then withLocalDate (In sunsetUTC locTZ) year month day
                                    else zeroGoTime)\<rparr>))"

definition moonRiseSet ::
  "(real \<Rightarrow> real \<Rightarrow> Time \<Rightarrow> real) \<Rightarrow> Coordinates \<Rightarrow> GoTime \<Rightarrow> (error + RiseSet) option" where
  "moonRiseSet moonAltitude loc date =
     (let locTZ = zone date;
          (year, month, day) = DateOf date
      in case moon_RiseSetForDate moonAltitude (Lat loc) (Lon loc) date of
           None \<Rightarrow> None
         | Some (rsMoonUTC, okRise, okSet) \<Rightarrow>
             Some (if \<not> okRise \<and> \<not> okSet then Inl ErrNoRiseNoSet
                   else Inr \<lparr>Rise = (if okRise
                                     then withLocalDate (In (mRise rsMoonUTC) locTZ) year month day
                                     else zeroGoTime),
                             Set = (if okSet
                                    then withLocalDate (In (mSet rsMoonUTC) locTZ) year month day
                                    else zeroGoTime)\<rparr>))"

text \<open>\<^verbatim>\<open>RiseSetFor\<close>, given the altitude models of the two bodies.\<close>

definition RiseSetFor ::
  "(real \<Rightarrow> real \<Rightarrow> Time \<Rightarrow> real) \<Rightarrow> (real \<Rightarrow> real \<Rightarrow> Time \<Rightarrow> real) \<Rightarrow> Body \<Rightarrow> Coordinates \<Rightarrow> GoTime
     \<Rightarrow> (error + RiseSet) option" where
  "RiseSetFor sunAltitude moonAltitude body loc date =
     (if body = Sun then sunRiseSet sunAltitude loc date
      else if body = Moon then moonRiseSet moonAltitude loc date
      else Some (Inl (ErrUnknownBody body)))"

definition TwilightFor ::
  "(real \<Rightarrow> real \<Rightarrow> Time \<Rightarrow> real) \<Rightarrow> Coordinates \<Rightarrow> GoTime \<Rightarrow> TwilightKind
     \<Rightarrow> (error + RiseSet) option" where
  "TwilightFor sunAltitude loc date kind =
     (let locTZ = zone date;
          (year, month, day) = DateOf date
      in if kind \<noteq> TwilightCivil \<and> kind \<noteq> TwilightNautical \<and> kind \<noteq> TwilightAstronomical
         then Some (Inl (ErrUnknownTwilightKind kind))
         else
           (let targetAlt = (if kind = TwilightCivil then - 6
                             else if kind = TwilightNautical then - 12 else - 18)
            in case TwilightForDate sunAltitude (Lat loc) (Lon loc) date targetAlt of
                 None \<Rightarrow> None
               | Some (dawnUTC, duskUTC, okDawn, okDusk) \<Rightarrow>
                   Some (if \<not> okDawn \<and> \<not> okDusk then Inl ErrNoRiseNoSet
                         else Inr \<lparr>Rise = (if okDawn
                                           then withLocalDate (In dawnUTC locTZ) year month day
                                           else zeroGoTime),
                                   Set = (if okDusk
                                          then withLocalDate (In duskUTC locTZ) year month day
                                          else zeroGoTime)\<rparr>)))"

definition classifyMoonPhaseName :: "real \<Rightarrow> bool \<Rightarrow> string" where
  "classifyMoonPhaseName f waxing =
     (let eps = 0.01;
          quarterTol = 0.05
      in if f < eps then ''New Moon''
         else if f > 1 - eps then ''Full Moon''
         else if \<bar>f - 0.5\<bar> < quarterTol then (if waxing then ''First Quarter'' else ''Last Quarter'')
         else if f < 0.5 then (if waxing then ''Waxing Crescent'' else ''Waning Crescent'')
         else (if waxing then ''Waxing Gibbous'' else ''Waning Gibbous''))"

text \<open>The cosine of the Sun-Moon separation as \<^verbatim>\<open>MoonPhaseAt\<close> computes it, before
  and after the clamp.\<close>

definition rawCosPsi :: "Time \<Rightarrow> real" where
  "rawCosPsi utc =
     (let mEq = GeocentricEquatorialWithDistanceApprox utc;
          sEq = sun_GeocentricEquatorialApprox utc;
          raSun = Deg2Rad (RA sEq);
          decSun = Deg2Rad (Dec sEq);
          raMoon = Deg2Rad (eqRA mEq);
          decMoon = Deg2Rad (eqDec mEq);
          dRA = raSun - raMoon
      in sin decSun * sin decMoon + cos decSun * cos decMoon * cos dRA)"

definition clampedCosPsi :: "Time \<Rightarrow> real" where
  "clampedCosPsi utc =
     (let cosPsi = rawCosPsi utc
      in if cosPsi > 1 then 1 else if cosPsi < - 1 then - 1 else cosPsi)"

definition MoonPhaseAt :: "GoTime \<Rightarrow> error + MoonPhase" where
  "MoonPhaseAt t =
     (let utc = instant (toUTC t);
          mEq = GeocentricEquatorialWithDistanceApprox utc;
          sEq = sun_GeocentricEquatorialApprox utc;
          cosPsi = clampedCosPsi utc;
          psi = arccos cosPsi;
          elongDeg = Rad2Deg psi;
          fraction = 0.5 * (1 - cosPsi);
          fraction' = (if fraction < 0 then 0 else if fraction > 1 then 1 else fraction);
          sepDeg = Normalize360 (eqRA mEq - RA sEq);
          waxing = (sepDeg < 180);
          name = classifyMoonPhaseName fraction' waxing
      in Inr \<lparr>PhaseTime = t, Fraction = fraction', Elongation = elongDeg, Waxing = waxing,
               Name = name\<rparr>)"

section \<open>Names used in the statements\<close>

text \<open>
  The search window of a request, the local calendar day of \<open>date\<close>:
  \<^verbatim>\<open>startLocal := time.Date(year, month, day, 0, 0, 0, 0, loc)\<close> and
  \<^verbatim>\<open>endLocal := startLocal.Add(24 * time.Hour)\<close>.
\<close>

definition localDayStart :: "GoTime \<Rightarrow> Time" where
  "localDayStart date =
     (let (year, month, day) = DateOf date
      in instant (Date year month day 0 0 0 0 (zone date)))"

definition localDayEnd :: "GoTime \<Rightarrow> Time" where
  "localDayEnd date = Add (localDayStart date) (24 * Hour)"

text \<open>What the orchestrator does with an event found at the instant \<open>t\<close>:
  \<^verbatim>\<open>withLocalDate(eventUTC.In(locTZ), year, month, day)\<close>.\<close>

definition pinToDate :: "GoTime \<Rightarrow> Time \<Rightarrow> GoTime" where
  "pinToDate date t =
     (let (year, month, day) = DateOf date
      in withLocalDate (In \<lparr>instant = t, zone = UTC\<rparr> (zone date)) year month day)"

text \<open>Test data.  An altitude model that is constantly zero.\<close>

definition flatAltitude :: "real \<Rightarrow> real \<Rightarrow> Time \<Rightarrow> real" where
  "flatAltitude lat lon t = 0"

text \<open>
  The zone America/St\_Johns around 14 March 2010: Newfoundland Standard Time (UTC-3:30)
  until the clocks went forward at 00:01 local time, 03:31 UTC (Unix second 1268537460),
  to 01:01 Newfoundland Daylight Time (UTC-2:30).
\<close>

definition stJohns :: Location where
  "stJohns = \<lparr>initialOffset = - 12600, transitions = [(1268537460, - 9000)]\<rparr>"

text \<open>A request for 14 March 2010 in that zone, as
  \<^verbatim>\<open>time.Date(2010, time.March, 14, 0, 0, 0, 0, loc)\<close>.\<close>

definition requestedDate :: GoTime where
  "requestedDate = Date 2010 3 14 0 0 0 0 stJohns"

text \<open>The instant 2010-03-15 03:00:00 UTC, which is 00:30 on 15 March in that zone, and an
  altitude model (in degrees, one degree per second) that rises through zero at that
  instant, wherever the observer is.\<close>

definition lateEvent :: Time where
  "lateEvent = 1268622000 * Second"

definition lateRise :: "real \<Rightarrow> real \<Rightarrow> Time \<Rightarrow> real" where
  "lateRise lat lon t = of_int (t - lateEvent) / of_int Second"

definition equator :: Coordinates where
  "equator = \<lparr>Lat = 0, Lon = 0, Elevation = 0\<rparr>"

section \<open>The solver: auxiliary facts\<close>

lemma quot_nonneg: "0 \<le> a \<Longrightarrow> 0 < b \<Longrightarrow> quot a b = a div b"
  by (cases "a = 0") (simp_all add: quot_def)

lemma bisect_loop_total:
  assumes "1 \<le> tol"
  shows "a \<le> b \<Longrightarrow> b - a \<le> maxDuration \<Longrightarrow>
    \<exists>a' b'. bisect_loop f tg ev tol a b altA altB = Some (a', b') \<and>
       a \<le> a' \<and> a' \<le> b' \<and> b' \<le> b \<and> b' - a' \<le> tol"
proof (induction "nat (b - a)" arbitrary: a b altA altB rule: less_induct)
  case less
  have sub: "Sub b a = b - a"
    using less.prems by (simp add: Sub_def minDuration_def)
  show ?case
  proof (cases "b - a > tol")
    case False
    then show ?thesis
      using less.prems sub by (subst bisect_loop.simps) simp
  next
    case True
    define mid where "mid = a + (b - a) div 2"
    have q: "quot (Sub b a) 2 = (b - a) div 2"
      using less.prems sub by (simp add: quot_nonneg)
    have m: "a < mid" "mid < b"
      using True assms by (simp_all add: mid_def)
    show ?thesis
    proof (cases "hasCrossing altA (f mid - tg) ev")
      case c: True
      have "\<exists>a' b'. bisect_loop f tg ev tol a mid altA (f mid - tg) = Some (a', b') \<and>
          a \<le> a' \<and> a' \<le> b' \<and> b' \<le> mid \<and> b' - a' \<le> tol"
        using m less.prems by (intro less.hyps) auto
      then show ?thesis
        using True c m sub q
        by (subst bisect_loop.simps) (auto simp: Let_def Add_def mid_def)
    next
      case c: False
      have "\<exists>a' b'. bisect_loop f tg ev tol mid b (f mid - tg) altB = Some (a', b') \<and>
          mid \<le> a' \<and> a' \<le> b' \<and> b' \<le> b \<and> b' - a' \<le> tol"
        using m less.prems by (intro less.hyps) auto
      then show ?thesis
        using True c m sub q
        by (subst bisect_loop.simps) (auto simp: Let_def Add_def mid_def)
    qed
  qed
qed

lemma hasCrossing_same: "ev = CrossingUp \<or> ev = CrossingDown \<Longrightarrow> \<not> hasCrossing x x ev"
  by (auto simp: hasCrossing_def CrossingUp_def CrossingDown_def)

lemma bisect_loop_diverges_aux:
  assumes "bisect_loop f tg ev tol a b altA altB = Some y"
  shows "\<not> (tol \<le> 0 \<and> (ev = CrossingUp \<or> ev = CrossingDown) \<and> a < b \<and> b - a \<le> maxDuration
            \<and> altA = f a - tg)"
proof (rule bisect_loop.raw_induct[where P = "\<lambda>f tg ev tol a b altA altB y.
     \<not> (tol \<le> 0 \<and> (ev = CrossingUp \<or> ev = CrossingDown) \<and> a < b \<and> b - a \<le> maxDuration
            \<and> altA = f a - tg)", OF _ assms], goal_cases)
  case (1 loop f tg ev tol a b altA altB y)
  note IH = "1"(1) and eq = "1"(2)
  show ?case
  proof
    assume h: "tol \<le> 0 \<and> (ev = CrossingUp \<or> ev = CrossingDown) \<and> a < b \<and> b - a \<le> maxDuration
            \<and> altA = f a - tg"
    then have sub: "Sub b a = b - a"
      by (simp add: Sub_def minDuration_def)
    have q: "quot (Sub b a) 2 = (b - a) div 2"
      using h sub by (simp add: quot_nonneg)
    define mid where "mid = a + (b - a) div 2"
    have gt: "tol < Sub b a" using h sub by simp
    show False
    proof (cases "hasCrossing altA (f mid - tg) ev")
      case True
      then have ne: "mid \<noteq> a" using h hasCrossing_same[of ev "f a - tg"] by auto
      then have "a < mid" "mid - a \<le> maxDuration" using h by (auto simp: mid_def)
      moreover have "loop f tg ev tol a mid altA (f mid - tg) = Some y"
        using eq True gt q by (simp add: Let_def Add_def mid_def)
      ultimately show False using IH[of f tg ev tol a mid altA "f mid - tg" y] h by simp
    next
      case False
      have "mid < b" "b - mid \<le> maxDuration" using h by (auto simp: mid_def)
      moreover have "loop f tg ev tol mid b (f mid - tg) altB = Some y"
        using eq False gt q by (simp add: Let_def Add_def mid_def)
      ultimately show False using IH[of f tg ev tol mid b "f mid - tg" altB y] h by simp
    qed
  qed
qed

lemma bisect_loop_diverges:
  "tol \<le> 0 \<Longrightarrow> ev = CrossingUp \<or> ev = CrossingDown \<Longrightarrow> a < b \<Longrightarrow> b - a \<le> maxDuration \<Longrightarrow>
   bisect_loop f tg ev tol a b (f a - tg) altB = None"
  using bisect_loop_diverges_aux[of f tg ev tol a b "f a - tg" altB]
  by (cases "bisect_loop f tg ev tol a b (f a - tg) altB") auto

lemma scan_find:
  "scan f start iv tg ev steps tol i (Add start ((i - 1) * iv)) (f (Add start ((i - 1) * iv)) - tg) =
     (case find (\<lambda>k. hasCrossing (f (Add start ((k - 1) * iv)) - tg) (f (Add start (k * iv)) - tg) ev)
             [i..steps - 1] of
        None \<Rightarrow> Some notFound
      | Some k \<Rightarrow> bisect f (Add start ((k - 1) * iv)) (Add start (k * iv)) tg ev tol)"
proof (induction "nat (steps - i)" arbitrary: i)
  case 0
  then have "\<not> i < steps" by simp
  then show ?case by simp
next
  case (Suc n)
  then have lt: "i < steps" by linarith
  then have up: "[i..steps - 1] = i # [i + 1..steps - 1]"
    by (simp add: upto_rec1)
  have n: "n = nat (steps - (i + 1))" using Suc.hyps(2) by linarith
  show ?case
  proof (cases "hasCrossing (f (Add start ((i - 1) * iv)) - tg) (f (Add start (i * iv)) - tg) ev")
    case True
    then show ?thesis using lt up by (subst scan.simps) (simp add: Let_def)
  next
    case False
    have "scan f start iv tg ev steps tol (i + 1) (Add start (i * iv)) (f (Add start (i * iv)) - tg) =
      (case find (\<lambda>k. hasCrossing (f (Add start ((k - 1) * iv)) - tg) (f (Add start (k * iv)) - tg) ev)
             [i + 1..steps - 1] of
        None \<Rightarrow> Some notFound
      | Some k \<Rightarrow> bisect f (Add start ((k - 1) * iv)) (Add start (k * iv)) tg ev tol)"
      using Suc.hyps(1)[OF n] by simp
    then show ?thesis using False lt up by (subst scan.simps) (simp add: Let_def)
  qed
qed

lemma FindAltitudeEvent_find:
  "FindAltitudeEvent f start end tg ev steps tol =
     (if \<not> Before start end then Some notFound
      else case find (bracketAt f start end tg ev steps) [1..sampleCount steps - 1] of
             None \<Rightarrow> Some notFound
           | Some k \<Rightarrow> bisect f (sampleTime start end steps (k - 1)) (sampleTime start end steps k)
                         tg ev tol)"
proof -
  have "scan f start iv tg ev n tol 1 start (f start - tg) =
     (case find (\<lambda>k. hasCrossing (f (Add start ((k - 1) * iv)) - tg) (f (Add start (k * iv)) - tg) ev)
             [1..n - 1] of
        None \<Rightarrow> Some notFound
      | Some k \<Rightarrow> bisect f (Add start ((k - 1) * iv)) (Add start (k * iv)) tg ev tol)" for iv n
    using scan_find[of f start iv tg ev n tol 1] by (simp add: Add_def)
  then show ?thesis
    unfolding FindAltitudeEvent_def bracketAt_def sampleValue_def sampleTime_def
      sampleInterval_def sampleCount_def Let_def
    by simp
qed


lemma Sub_window: "Before start end \<Longrightarrow> 1 \<le> Sub end start \<and> Sub end start \<le> end - start
   \<and> Sub end start \<le> maxDuration"
  by (simp add: Sub_def Before_def maxDuration_def minDuration_def)

lemma sampleCount_ge: "2 \<le> sampleCount steps"
  by (simp add: sampleCount_def)

lemma sampleInterval_bounds:
  assumes "Before start end"
  shows "0 \<le> sampleInterval start end steps"
    and "(sampleCount steps - 1) * sampleInterval start end steps \<le> Sub end start"
proof -
  let ?n = "sampleCount steps - 1"
  have n: "0 < ?n" using sampleCount_ge[of steps] by simp
  have D: "0 \<le> Sub end start" using Sub_window[OF assms] by simp
  have q: "sampleInterval start end steps = Sub end start div ?n"
    unfolding sampleInterval_def using quot_nonneg[OF D n] .
  show "0 \<le> sampleInterval start end steps"
    unfolding q using D n by (simp add: pos_imp_zdiv_nonneg_iff)
  have "?n * (Sub end start div ?n) \<le> Sub end start"
    using mult_div_mod_eq[of ?n "Sub end start"] pos_mod_sign[OF n, of "Sub end start"]
    by linarith
  then show "?n * sampleInterval start end steps \<le> Sub end start"
    unfolding q .
qed

lemma sampleTime_window:
  assumes "Before start end" "0 \<le> i" "i \<le> sampleCount steps - 1"
  shows "start \<le> sampleTime start end steps i" "sampleTime start end steps i \<le> end"
proof -
  let ?iv = "sampleInterval start end steps"
  have iv: "0 \<le> ?iv" and tot: "(sampleCount steps - 1) * ?iv \<le> Sub end start"
    using sampleInterval_bounds[OF assms(1)] by auto
  have "0 \<le> i * ?iv" using assms(2) iv by simp
  then show "start \<le> sampleTime start end steps i"
    by (simp add: sampleTime_def Add_def)
  have "i * ?iv \<le> (sampleCount steps - 1) * ?iv"
    using assms(3) iv by (simp add: mult_right_mono)
  then have "i * ?iv \<le> end - start"
    using tot Sub_window[OF assms(1)] by linarith
  then show "sampleTime start end steps i \<le> end"
    by (simp add: sampleTime_def Add_def)
qed

text \<open>The offsets \<^verbatim>\<open>time.Duration(i) * interval\<close> of the samples are durations: the
  product does not overflow.\<close>

lemma sample_offset_in_range:
  assumes "Before start end" "0 \<le> i" "i \<le> sampleCount steps - 1"
  shows "0 \<le> i * sampleInterval start end steps"
    and "i * sampleInterval start end steps \<le> maxDuration"
proof -
  let ?iv = "sampleInterval start end steps"
  have iv: "0 \<le> ?iv" and tot: "(sampleCount steps - 1) * ?iv \<le> Sub end start"
    using sampleInterval_bounds[OF assms(1)] by auto
  show "0 \<le> i * ?iv" using assms(2) iv by simp
  have "i * ?iv \<le> (sampleCount steps - 1) * ?iv"
    using assms(3) iv by (simp add: mult_right_mono)
  then show "i * ?iv \<le> maxDuration"
    using tot Sub_window[OF assms(1)] by linarith
qed

lemma sampleTime_step:
  assumes "Before start end"
  shows "sampleTime start end steps (k - 1) \<le> sampleTime start end steps k"
    and "sampleTime start end steps k - sampleTime start end steps (k - 1) \<le> maxDuration"
proof -
  let ?iv = "sampleInterval start end steps"
  have iv: "0 \<le> ?iv" and tot: "(sampleCount steps - 1) * ?iv \<le> Sub end start"
    using sampleInterval_bounds[OF assms(1)] by auto
  have d: "sampleTime start end steps k - sampleTime start end steps (k - 1) = ?iv"
    by (simp add: sampleTime_def Add_def algebra_simps)
  show "sampleTime start end steps (k - 1) \<le> sampleTime start end steps k"
    using d iv by linarith
  have "1 * ?iv \<le> (sampleCount steps - 1) * ?iv"
    using sampleCount_ge[of steps] iv by (intro mult_right_mono) auto
  then have "?iv \<le> maxDuration"
    using tot Sub_window[OF assms(1)] by linarith
  then show "sampleTime start end steps k - sampleTime start end steps (k - 1) \<le> maxDuration"
    using d by simp
qed

lemma bisect_loop_bounds_aux:
  assumes "bisect_loop f tg ev tol a b altA altB = Some y"
  shows "a \<le> b \<and> b - a \<le> maxDuration \<longrightarrow> a \<le> fst y \<and> fst y \<le> snd y \<and> snd y \<le> b"
proof (rule bisect_loop.raw_induct[where P = "\<lambda>f tg ev tol a b altA altB y.
     a \<le> b \<and> b - a \<le> maxDuration \<longrightarrow> a \<le> fst y \<and> fst y \<le> snd y \<and> snd y \<le> b", OF _ assms],
    goal_cases)
  case (1 loop f tg ev tol a b altA altB y)
  note IH = "1"(1) and eq = "1"(2)
  show ?case
  proof
    assume h: "a \<le> b \<and> b - a \<le> maxDuration"
    then have sub: "Sub b a = b - a"
      by (simp add: Sub_def minDuration_def)
    have q: "quot (Sub b a) 2 = (b - a) div 2"
      using h sub by (simp add: quot_nonneg)
    define mid where "mid = a + (b - a) div 2"
    have m: "a \<le> mid" "mid \<le> b" using h by (auto simp: mid_def)
    show "a \<le> fst y \<and> fst y \<le> snd y \<and> snd y \<le> b"
    proof (cases "tol < Sub b a")
      case False
      then show ?thesis using eq h by auto
    next
      case gt: True
      show ?thesis
      proof (cases "hasCrossing altA (f mid - tg) ev")
        case True
        then have "loop f tg ev tol a mid altA (f mid - tg) = Some y"
          using eq gt q by (simp add: Let_def Add_def mid_def)
        from IH[OF this] show ?thesis using m h by auto
      next
        case False
        then have "loop f tg ev tol mid b (f mid - tg) altB = Some y"
          using eq gt q by (simp add: Let_def Add_def mid_def)
        from IH[OF this] show ?thesis using m h by auto
      qed
    qed
  qed
qed

lemma bisect_loop_bounds:
  "bisect_loop f tg ev tol a b altA altB = Some (a', b') \<Longrightarrow> a \<le> b \<Longrightarrow> b - a \<le> maxDuration \<Longrightarrow>
     a \<le> a' \<and> a' \<le> b' \<and> b' \<le> b"
  using bisect_loop_bounds_aux[of f tg ev tol a b altA altB "(a', b')"] by simp

lemma midpoint_exact:
  "a' \<le> b' \<Longrightarrow> b' - a' \<le> maxDuration \<Longrightarrow> Add a' (quot (Sub b' a') 2) = a' + (b' - a') div 2"
  by (simp add: Add_def Sub_def minDuration_def quot_nonneg)

lemma bisect_window:
  assumes "bisect f a b tg ev tol = Some r" "OK r" "a \<le> b" "b - a \<le> maxDuration"
  shows "a \<le> Time r \<and> Time r \<le> b"
proof -
  from assms(1,2) obtain a' b' where
    l: "bisect_loop f tg ev tol a b (f a - tg) (f b - tg) = Some (a', b')"
    and r: "r = \<lparr>Time = Add a' (quot (Sub b' a') 2), OK = True\<rparr>"
    by (auto simp: bisect_def Let_def notFound_def split: if_splits option.splits)
  have b: "a \<le> a'" "a' \<le> b'" "b' \<le> b"
    using bisect_loop_bounds[OF l assms(3,4)] by auto
  then have "b' - a' \<le> maxDuration" using assms(4) by linarith
  then have "Time r = a' + (b' - a') div 2"
    using r b midpoint_exact by simp
  then show ?thesis using b by linarith
qed

lemma find_bracket_index:
  assumes "find P [1..n - 1] = Some k"
  shows "1 \<le> k" "k \<le> n - 1" "P k"
proof -
  from assms have "k \<in> set [1..n - 1] \<and> P k"
    by (auto simp: find_Some_iff in_set_conv_nth)
  then show "1 \<le> k" "k \<le> n - 1" "P k" by auto
qed

lemma bracket_in_window:
  assumes "Before start end" "1 \<le> k" "k \<le> sampleCount steps - 1"
  shows "start \<le> sampleTime start end steps (k - 1)"
    and "sampleTime start end steps (k - 1) \<le> sampleTime start end steps k"
    and "sampleTime start end steps k \<le> end"
    and "sampleTime start end steps k - sampleTime start end steps (k - 1) \<le> maxDuration"
  using sampleTime_window[OF assms(1), of "k - 1" steps] sampleTime_window[OF assms(1), of k steps]
    sampleTime_step[OF assms(1), of steps k] assms(2,3)
  by auto

text \<open>
  Claim C10.  Whenever \<^verbatim>\<open>FindAltitudeEvent\<close> returns a result with \<open>OK = true\<close>, the
  reported time lies in the closed search window \<open>[start, end]\<close>.  This holds for every
  altitude function, target, event type, sample count and tolerance.
\<close>

theorem FindAltitudeEvent_in_window:
  assumes "FindAltitudeEvent f start end targetDeg eventType steps tol = Some r" and "OK r"
  shows "start \<le> Time r \<and> Time r \<le> end"
proof -
  have w: "Before start end"
    using assms by (auto simp: FindAltitudeEvent_find notFound_def split: if_splits)
  from assms w obtain k where
    k: "find (bracketAt f start end targetDeg eventType steps) [1..sampleCount steps - 1] = Some k"
    and b: "bisect f (sampleTime start end steps (k - 1)) (sampleTime start end steps k)
              targetDeg eventType tol = Some r"
    by (auto simp: FindAltitudeEvent_find notFound_def split: if_splits option.splits)
  note i = find_bracket_index[OF k]
  note bw = bracket_in_window[OF w i(1,2)]
  from bisect_window[OF b assms(2) bw(2) bw(4)] bw(1,3) show ?thesis by linarith
qed

lemmas solver_eval = FindAltitudeEvent_def Before_def Sub_def maxDuration_def minDuration_def
  quot_def Add_def hasCrossing_def CrossingUp_def CrossingDown_def bisect_def ramp_def Let_def
  notFound_def

lemma ramp_found3: "FindAltitudeEvent ramp 0 100 (75/2) CrossingUp 3 4 = Some \<lparr>Time = 38, OK = True\<rparr>"
  by (simp add: solver_eval bisect_loop.simps)

theorem FindAltitudeEvent_in_window_witness:
  "FindAltitudeEvent ramp 0 100 (75/2) CrossingUp 3 4 = Some \<lparr>Time = 38, OK = True\<rparr>
   \<and> (0::int) \<le> 38 \<and> (38::int) \<le> 100"
  using FindAltitudeEvent_in_window[of ramp 0 100 "75/2" CrossingUp 3 4 "\<lparr>Time = 38, OK = True\<rparr>"]
    ramp_found3 by simp

lemma bisect_on_bracket:
  assumes "hasCrossing (f a - tg) (f b - tg) ev"
  shows "bisect f a b tg ev tol =
     (case bisect_loop f tg ev tol a b (f a - tg) (f b - tg) of
        None \<Rightarrow> None
      | Some (a', b') \<Rightarrow> Some \<lparr>Time = Add a' (quot (Sub b' a') 2), OK = True\<rparr>)"
  using assms by (simp add: bisect_def Let_def)

lemma first_bracket_result:
  assumes w: "Before start end"
    and k: "find (bracketAt f start end tg ev steps) [1..sampleCount steps - 1] = Some k"
    and r: "FindAltitudeEvent f start end tg ev steps tol = Some r"
  shows "OK r \<and> sampleTime start end steps (k - 1) \<le> Time r \<and> Time r \<le> sampleTime start end steps k"
proof -
  note i = find_bracket_index[OF k]
  note bw = bracket_in_window[OF w i(1,2)]
  have b: "bisect f (sampleTime start end steps (k - 1)) (sampleTime start end steps k) tg ev tol = Some r"
    using w k r by (simp add: FindAltitudeEvent_find)
  have c: "hasCrossing (f (sampleTime start end steps (k - 1)) - tg) (f (sampleTime start end steps k) - tg) ev"
    using i(3) by (simp add: bracketAt_def sampleValue_def)
  have ok: "OK r"
    using b unfolding bisect_on_bracket[where f=f and a="sampleTime start end steps (k - 1)"
        and b="sampleTime start end steps k", OF c]
    by (auto split: option.splits)
  from bisect_window[OF b ok bw(2) bw(4)] ok show ?thesis by simp
qed

lemma first_bracket_reported:
  assumes tol: "1 \<le> tol" and w: "Before start end"
    and k: "find (bracketAt f start end tg ev steps) [1..sampleCount steps - 1] = Some k"
  shows "\<exists>a b. bisect_loop f tg ev tol (sampleTime start end steps (k - 1)) (sampleTime start end steps k)
                 (sampleValue f start end tg steps (k - 1)) (sampleValue f start end tg steps k) = Some (a, b)
           \<and> sampleTime start end steps (k - 1) \<le> a \<and> a \<le> b \<and> b \<le> sampleTime start end steps k
           \<and> b - a \<le> tol
           \<and> FindAltitudeEvent f start end tg ev steps tol = Some \<lparr>Time = a + (b - a) div 2, OK = True\<rparr>"
proof -
  let ?A = "sampleTime start end steps (k - 1)" and ?B = "sampleTime start end steps k"
  note i = find_bracket_index[OF k]
  note bw = bracket_in_window[OF w i(1,2)]
  have c: "hasCrossing (f ?A - tg) (f ?B - tg) ev"
    using i(3) by (simp add: bracketAt_def sampleValue_def)
  obtain a b where l: "bisect_loop f tg ev tol ?A ?B (f ?A - tg) (f ?B - tg) = Some (a, b)"
    and ab: "?A \<le> a" "a \<le> b" "b \<le> ?B" "b - a \<le> tol"
    using bisect_loop_total[OF tol bw(2) bw(4), of f tg ev "f ?A - tg" "f ?B - tg"] by auto
  have "b - a \<le> maxDuration" using ab bw(4) by linarith
  then have m: "Add a (quot (Sub b a) 2) = a + (b - a) div 2"
    using ab(2) by (rule midpoint_exact[rotated])
  have "FindAltitudeEvent f start end tg ev steps tol = Some \<lparr>Time = a + (b - a) div 2, OK = True\<rparr>"
    using w k l m
    by (simp add: FindAltitudeEvent_find bisect_on_bracket[where f=f and a="?A" and b="?B", OF c])
  then show ?thesis using l ab by (auto simp: sampleValue_def)
qed

lemma scan_evals_find:
  "i \<le> steps \<Longrightarrow>
   scan_evals f start iv tg ev steps i (f (Add start ((i - 1) * iv)) - tg) =
     (case find (\<lambda>k. hasCrossing (f (Add start ((k - 1) * iv)) - tg) (f (Add start (k * iv)) - tg) ev)
             [i..steps - 1] of
        None \<Rightarrow> nat (steps - i)
      | Some k \<Rightarrow> nat (k - i + 1))"
proof (induction "nat (steps - i)" arbitrary: i)
  case 0
  then have "\<not> i < steps" by simp
  then show ?case using "0.prems" by simp
next
  case (Suc n)
  then have lt: "i < steps" by linarith
  then have up: "[i..steps - 1] = i # [i + 1..steps - 1]"
    by (simp add: upto_rec1)
  have n: "n = nat (steps - (i + 1))" using Suc.hyps(2) by linarith
  show ?case
  proof (cases "hasCrossing (f (Add start ((i - 1) * iv)) - tg) (f (Add start (i * iv)) - tg) ev")
    case True
    then show ?thesis using lt up by (subst scan_evals.simps) (simp add: Let_def)
  next
    case False
    have ih: "scan_evals f start iv tg ev steps (i + 1) (f (Add start (i * iv)) - tg) =
      (case find (\<lambda>k. hasCrossing (f (Add start ((k - 1) * iv)) - tg) (f (Add start (k * iv)) - tg) ev)
             [i + 1..steps - 1] of
        None \<Rightarrow> nat (steps - (i + 1))
      | Some k \<Rightarrow> nat (k - (i + 1) + 1))"
      using Suc.hyps(1)[OF n] lt by simp
    have ge: "\<And>k. find (\<lambda>k. hasCrossing (f (Add start ((k - 1) * iv)) - tg) (f (Add start (k * iv)) - tg) ev)
             [i + 1..steps - 1] = Some k \<Longrightarrow> i + 1 \<le> k"
      by (auto simp: find_Some_iff in_set_conv_nth dest!: nth_mem)
    show ?thesis using False lt up ih
      by (subst scan_evals.simps) (auto simp: Let_def split: option.splits dest!: ge)
  qed
qed

lemma FindAltitudeEvent_evals_find:
  "FindAltitudeEvent_evals f start end tg ev steps =
     (if \<not> Before start end then 0
      else case find (bracketAt f start end tg ev steps) [1..sampleCount steps - 1] of
             None \<Rightarrow> nat (sampleCount steps)
           | Some k \<Rightarrow> nat k + 1)"
proof (cases "Before start end")
  case False
  then show ?thesis by (simp add: FindAltitudeEvent_evals_def)
next
  case True
  have ge: "\<And>k. find (bracketAt f start end tg ev steps) [1..sampleCount steps - 1] = Some k \<Longrightarrow> 1 \<le> k"
    by (rule find_bracket_index(1))
  have "scan_evals f start (sampleInterval start end steps) tg ev (sampleCount steps) 1 (f start - tg) =
     (case find (bracketAt f start end tg ev steps) [1..sampleCount steps - 1] of
        None \<Rightarrow> nat (sampleCount steps - 1)
      | Some k \<Rightarrow> nat k)"
    unfolding bracketAt_def sampleValue_def sampleTime_def
    using scan_evals_find[of 1 "sampleCount steps" f start "sampleInterval start end steps" tg ev]
      sampleCount_ge[of steps]
    by (simp del: scan_evals.simps add: Add_def split: option.splits)
  then show ?thesis
    using True sampleCount_ge[of steps]
    by (auto simp del: scan_evals.simps simp: FindAltitudeEvent_evals_def split: option.splits dest!: ge)
qed

lemmas sample_eval = sampleCount_def bracketAt_def sampleValue_def sampleTime_def sampleInterval_def

lemma sawtooth_brackets:
  "find (bracketAt sawtooth 0 100 (1/2) CrossingUp 5) [1..sampleCount 5 - 1] = Some 1"
  "bracketAt sawtooth 0 100 (1/2) CrossingUp 5 3"
  "sampleTime 0 100 5 0 = 0" "sampleTime 0 100 5 1 = 25"
  "sampleTime 0 100 5 2 = 50" "sampleTime 0 100 5 3 = 75"
  "Before 0 100"
  by (simp_all add: sample_eval solver_eval sawtooth_def upto_rec1)

lemma sawtooth_found:
  "FindAltitudeEvent sawtooth 0 100 (1/2) CrossingUp 5 4 = Some \<lparr>Time = 13, OK = True\<rparr>"
  by (simp add: solver_eval sawtooth_def bisect_loop.simps)

text \<open>
  Claim C3.  \<^verbatim>\<open>hasCrossing\<close> detects a rising bracket exactly when the earlier value
  is strictly negative and the later one is at least zero, and a setting bracket exactly
  when the earlier value is strictly positive and the later one is at most zero.  On a
  proper window \<^verbatim>\<open>FindAltitudeEvent\<close> hands to \<^verbatim>\<open>bisect\<close> the first pair of
  consecutive samples, in the order of the sample indices \<open>1, ..., n - 1\<close>, that forms such
  a bracket, and its result is the result of that bisection; brackets at later indices
  play no part, and without any bracket the result is "not found".  When there is a
  first bracket, every result the call returns is an event (\<open>OK = true\<close>) whose time lies
  in that bracket; and for a tolerance of at least one nanosecond the call does return:
  the bisection loop, started on the first bracket, stops on a bracket inside it, of
  width at most the tolerance, and the event reported is its midpoint.
\<close>

theorem first_bracket_is_refined:
  "(hasCrossing a1 a2 CrossingUp \<longleftrightarrow> a1 < 0 \<and> a2 \<ge> 0)
   \<and> (hasCrossing a1 a2 CrossingDown \<longleftrightarrow> a1 > 0 \<and> a2 \<le> 0)
   \<and> FindAltitudeEvent f start end targetDeg eventType steps tol =
       (if \<not> Before start end then Some notFound
        else case find (bracketAt f start end targetDeg eventType steps) [1..sampleCount steps - 1] of
               None \<Rightarrow> Some notFound
             | Some k \<Rightarrow> bisect f (sampleTime start end steps (k - 1)) (sampleTime start end steps k)
                           targetDeg eventType tol)
   \<and> (Before start end
        \<and> find (bracketAt f start end targetDeg eventType steps) [1..sampleCount steps - 1] = Some k
        \<and> FindAltitudeEvent f start end targetDeg eventType steps tol = Some r
       \<longrightarrow> OK r \<and> sampleTime start end steps (k - 1) \<le> Time r
             \<and> Time r \<le> sampleTime start end steps k)
   \<and> (1 \<le> tol \<and> Before start end
        \<and> find (bracketAt f start end targetDeg eventType steps) [1..sampleCount steps - 1] = Some k
       \<longrightarrow> (\<exists>a b. bisect_loop f targetDeg eventType tol
                      (sampleTime start end steps (k - 1)) (sampleTime start end steps k)
                      (sampleValue f start end targetDeg steps (k - 1))
                      (sampleValue f start end targetDeg steps k) = Some (a, b)
                  \<and> sampleTime start end steps (k - 1) \<le> a \<and> a \<le> b
                  \<and> b \<le> sampleTime start end steps k \<and> b - a \<le> tol
                  \<and> FindAltitudeEvent f start end targetDeg eventType steps tol =
                      Some \<lparr>Time = a + (b - a) div 2, OK = True\<rparr>))"
proof (intro conjI impI)
  show "hasCrossing a1 a2 CrossingUp \<longleftrightarrow> a1 < 0 \<and> a2 \<ge> 0"
    by (simp add: hasCrossing_def)
  show "hasCrossing a1 a2 CrossingDown \<longleftrightarrow> a1 > 0 \<and> a2 \<le> 0"
    by (simp add: hasCrossing_def CrossingUp_def CrossingDown_def)
  show "FindAltitudeEvent f start end targetDeg eventType steps tol =
       (if \<not> Before start end then Some notFound
        else case find (bracketAt f start end targetDeg eventType steps) [1..sampleCount steps - 1] of
               None \<Rightarrow> Some notFound
             | Some k \<Rightarrow> bisect f (sampleTime start end steps (k - 1)) (sampleTime start end steps k)
                           targetDeg eventType tol)"
    by (rule FindAltitudeEvent_find)
next
  assume h: "Before start end
        \<and> find (bracketAt f start end targetDeg eventType steps) [1..sampleCount steps - 1] = Some k
        \<and> FindAltitudeEvent f start end targetDeg eventType steps tol = Some r"
  then have res: "OK r \<and> sampleTime start end steps (k - 1) \<le> Time r
      \<and> Time r \<le> sampleTime start end steps k"
    by (intro first_bracket_result) auto
  from res show "OK r" by simp
  from res show "sampleTime start end steps (k - 1) \<le> Time r" by simp
  from res show "Time r \<le> sampleTime start end steps k" by simp
next
  assume "1 \<le> tol \<and> Before start end
        \<and> find (bracketAt f start end targetDeg eventType steps) [1..sampleCount steps - 1] = Some k"
  then show "\<exists>a b. bisect_loop f targetDeg eventType tol
                      (sampleTime start end steps (k - 1)) (sampleTime start end steps k)
                      (sampleValue f start end targetDeg steps (k - 1))
                      (sampleValue f start end targetDeg steps k) = Some (a, b)
                  \<and> sampleTime start end steps (k - 1) \<le> a \<and> a \<le> b
                  \<and> b \<le> sampleTime start end steps k \<and> b - a \<le> tol
                  \<and> FindAltitudeEvent f start end targetDeg eventType steps tol =
                      Some \<lparr>Time = a + (b - a) div 2, OK = True\<rparr>"
    by (intro first_bracket_reported) auto
qed

theorem first_bracket_is_refined_witness:
  "find (bracketAt sawtooth 0 100 (1/2) CrossingUp 5) [1..sampleCount 5 - 1] = Some 1
   \<and> bracketAt sawtooth 0 100 (1/2) CrossingUp 5 3
   \<and> (1::int) \<le> 4 \<and> Before 0 100
   \<and> FindAltitudeEvent sawtooth 0 100 (1/2) CrossingUp 5 4 = Some \<lparr>Time = 13, OK = True\<rparr>
   \<and> sampleTime 0 100 5 (1 - 1) \<le> 13 \<and> 13 \<le> sampleTime 0 100 5 1
   \<and> (\<exists>a b. bisect_loop sawtooth (1/2) CrossingUp 4 (sampleTime 0 100 5 (1 - 1)) (sampleTime 0 100 5 1)
                (sampleValue sawtooth 0 100 (1/2) 5 (1 - 1)) (sampleValue sawtooth 0 100 (1/2) 5 1)
                = Some (a, b)
           \<and> sampleTime 0 100 5 (1 - 1) \<le> a \<and> a \<le> b \<and> b \<le> sampleTime 0 100 5 1 \<and> b - a \<le> 4
           \<and> 13 = a + (b - a) div 2)"
  using first_bracket_is_refined[of _ _ sawtooth 0 100 "1/2" CrossingUp 5 4 1
      "\<lparr>Time = 13, OK = True\<rparr>"]
    sawtooth_brackets(1,2,7) sawtooth_found
  by simp

lemma scan_evals_le:
  "i \<le> steps \<Longrightarrow> int (scan_evals f start iv tg ev steps i prevAlt) \<le> steps - i"
proof (induction f start iv tg ev steps i prevAlt rule: scan_evals.induct)
  case (1 f start iv tg ev steps i prevAlt)
  show ?case
  proof (cases "i < steps")
    case False
    then show ?thesis using "1.prems" by simp
  next
    case lt: True
    show ?thesis
    proof (cases "hasCrossing prevAlt (f (Add start (i * iv)) - tg) ev")
      case True
      then show ?thesis using lt by (simp add: Let_def)
    next
      case False
      have "int (scan_evals f start iv tg ev steps (i + 1) (f (Add start (i * iv)) - tg))
              \<le> steps - (i + 1)"
        using "1.IH"[OF lt refl refl False] lt by simp
      then show ?thesis using lt False by (simp add: Let_def)
    qed
  qed
qed

lemma FindAltitudeEvent_evals_le:
  "int (FindAltitudeEvent_evals f start end tg ev steps) \<le> sampleCount steps"
proof (cases "Before start end")
  case False
  then show ?thesis using sampleCount_ge[of steps] by (simp add: FindAltitudeEvent_evals_def)
next
  case True
  have "int (scan_evals f start (sampleInterval start end steps) tg ev (sampleCount steps) 1
          (f start - tg)) \<le> sampleCount steps - 1"
    using sampleCount_ge[of steps] by (intro scan_evals_le) simp
  then show ?thesis using True by (simp add: FindAltitudeEvent_evals_def)
qed

lemma bisect_total:
  assumes "1 \<le> tol" "a \<le> b" "b - a \<le> maxDuration"
  shows "\<exists>r. bisect f a b tg ev tol = Some r \<and>
     (OK r \<longrightarrow> (\<exists>a' b'. bisect_loop f tg ev tol a b (f a - tg) (f b - tg) = Some (a', b')
        \<and> a' \<le> b' \<and> b' - a' \<le> tol \<and> Time r = a' + (b' - a') div 2))"
proof -
  obtain a' b' where l: "bisect_loop f tg ev tol a b (f a - tg) (f b - tg) = Some (a', b')"
    and b: "a \<le> a'" "a' \<le> b'" "b' \<le> b" "b' - a' \<le> tol"
    using bisect_loop_total[OF assms, of f tg ev "f a - tg" "f b - tg"] by auto
  have "b' - a' \<le> maxDuration" using b assms(3) by linarith
  then have "Add a' (quot (Sub b' a') 2) = a' + (b' - a') div 2"
    using b(2) by (rule midpoint_exact[rotated])
  then show ?thesis using l b by (auto simp: bisect_def Let_def notFound_def)
qed

lemma FindAltitudeEvent_returns:
  assumes "1 \<le> tol"
  shows "\<exists>r. FindAltitudeEvent f start end targetDeg eventType steps tol = Some r
     \<and> int (FindAltitudeEvent_evals f start end targetDeg eventType steps) \<le> sampleCount steps
     \<and> (OK r \<longrightarrow>
          (\<exists>k a b. find (bracketAt f start end targetDeg eventType steps) [1..sampleCount steps - 1] = Some k
             \<and> bisect_loop f targetDeg eventType tol
                  (sampleTime start end steps (k - 1)) (sampleTime start end steps k)
                  (sampleValue f start end targetDeg steps (k - 1))
                  (sampleValue f start end targetDeg steps k) = Some (a, b)
             \<and> a \<le> b \<and> b - a \<le> tol \<and> Time r = a + (b - a) div 2))"
proof (cases "Before start end")
  case False
  then show ?thesis
    using FindAltitudeEvent_evals_le[of f start "end" targetDeg eventType steps]
    by (simp add: FindAltitudeEvent_find notFound_def)
next
  case w: True
  show ?thesis
  proof (cases "find (bracketAt f start end targetDeg eventType steps) [1..sampleCount steps - 1]")
    case None
    then show ?thesis
      using w FindAltitudeEvent_evals_le[of f start "end" targetDeg eventType steps]
      by (simp add: FindAltitudeEvent_find notFound_def)
  next
    case (Some k)
    note i = find_bracket_index[OF Some]
    note bw = bracket_in_window[OF w i(1,2)]
    from bisect_total[OF assms bw(2) bw(4), of f targetDeg eventType]
    show ?thesis
      using w Some FindAltitudeEvent_evals_le[of f start "end" targetDeg eventType steps]
      by (simp add: FindAltitudeEvent_find sampleValue_def)
  qed
qed

text \<open>
  Claim C4, as amended.  For every tolerance of at least one nanosecond, every call of
  \<^verbatim>\<open>FindAltitudeEvent\<close> returns.  The scan evaluates the altitude function once per
  sample up to the later sample of the first bracket, or at every sample when there is no
  bracket, so at most as many times as the (clamped) sample count.  Without a bracket, and
  on a degenerate window, the result is "not found"; once a bracket is found, the
  bisection loop, started on it, stops on a bracket \<open>[a, b]\<close> inside it, of width at most
  the tolerance, and the call returns the midpoint \<open>a + (b - a) / 2\<close> as an event.
\<close>

theorem FindAltitudeEvent_terminates:
  assumes "1 \<le> tol"
  shows "\<exists>r. FindAltitudeEvent f start end targetDeg eventType steps tol = Some r
     \<and> FindAltitudeEvent_evals f start end targetDeg eventType steps =
         (if \<not> Before start end then 0
          else case find (bracketAt f start end targetDeg eventType steps) [1..sampleCount steps - 1] of
                 None \<Rightarrow> nat (sampleCount steps)
               | Some k \<Rightarrow> nat k + 1)
     \<and> int (FindAltitudeEvent_evals f start end targetDeg eventType steps) \<le> sampleCount steps
     \<and> (if \<not> Before start end then r = notFound
         else case find (bracketAt f start end targetDeg eventType steps) [1..sampleCount steps - 1] of
                None \<Rightarrow> r = notFound
              | Some k \<Rightarrow>
                  (\<exists>a b. bisect_loop f targetDeg eventType tol
                      (sampleTime start end steps (k - 1)) (sampleTime start end steps k)
                      (sampleValue f start end targetDeg steps (k - 1))
                      (sampleValue f start end targetDeg steps k) = Some (a, b)
                    \<and> sampleTime start end steps (k - 1) \<le> a \<and> a \<le> b
                    \<and> b \<le> sampleTime start end steps k \<and> b - a \<le> tol
                    \<and> r = \<lparr>Time = a + (b - a) div 2, OK = True\<rparr>))"
proof -
  note ev = FindAltitudeEvent_evals_find[of f start "end" targetDeg eventType steps]
    FindAltitudeEvent_evals_le[of f start "end" targetDeg eventType steps]
  show ?thesis
  proof (cases "Before start end")
    case False
    then show ?thesis using ev by (simp add: FindAltitudeEvent_find)
  next
    case w: True
    show ?thesis
    proof (cases "find (bracketAt f start end targetDeg eventType steps) [1..sampleCount steps - 1]")
      case None
      then show ?thesis using w ev by (simp add: FindAltitudeEvent_find)
    next
      case (Some k)
      from first_bracket_reported[OF assms w Some] obtain a b where
        "bisect_loop f targetDeg eventType tol
            (sampleTime start end steps (k - 1)) (sampleTime start end steps k)
            (sampleValue f start end targetDeg steps (k - 1))
            (sampleValue f start end targetDeg steps k) = Some (a, b)"
        "sampleTime start end steps (k - 1) \<le> a" "a \<le> b" "b \<le> sampleTime start end steps k"
        "b - a \<le> tol"
        "FindAltitudeEvent f start end targetDeg eventType steps tol =
           Some \<lparr>Time = a + (b - a) div 2, OK = True\<rparr>"
        by blast
      then show ?thesis using w Some ev by auto
    qed
  qed
qed

lemma ramp_brackets:
  "find (bracketAt ramp 0 100 (75/2) CrossingUp 3) [1..sampleCount 3 - 1] = Some 1"
  "Before 0 100"
  by (simp_all add: sample_eval solver_eval upto_rec1)

theorem FindAltitudeEvent_terminates_witness:
  "(1::int) \<le> 4
   \<and> FindAltitudeEvent ramp 0 100 (75/2) CrossingUp 3 4 = Some \<lparr>Time = 38, OK = True\<rparr>
   \<and> FindAltitudeEvent_evals ramp 0 100 (75/2) CrossingUp 3 = 2
   \<and> (\<exists>a b. bisect_loop ramp (75/2) CrossingUp 4 (sampleTime 0 100 3 (1 - 1)) (sampleTime 0 100 3 1)
                (sampleValue ramp 0 100 (75/2) 3 (1 - 1)) (sampleValue ramp 0 100 (75/2) 3 1)
                = Some (a, b)
           \<and> sampleTime 0 100 3 (1 - 1) \<le> a \<and> a \<le> b \<and> b \<le> sampleTime 0 100 3 1 \<and> b - a \<le> 4
           \<and> 38 = a + (b - a) div 2)"
  using FindAltitudeEvent_terminates[of 4 ramp 0 100 "75/2" CrossingUp 3]
    ramp_brackets ramp_found3
  by auto

text \<open>
  Claim C4 as stated fails for a tolerance of zero: once the bracket is one nanosecond
  wide its midpoint is its left end, the left end is replaced by itself, and the loop
  never exits.  Here the samples at 0 and 10 bracket the rising crossing of the target
  1/2 by the altitude \<open>ramp\<close>, and the call does not return.
\<close>

theorem FindAltitudeEvent_zero_tolerance_diverges:
  "FindAltitudeEvent ramp 0 10 (1/2) CrossingUp 2 0 = None"
proof -
  have "bisect_loop ramp (1/2) CrossingUp 0 0 10 (ramp 0 - 1/2) (ramp 10 - 1/2) = None"
    by (rule bisect_loop_diverges) (simp_all add: maxDuration_def)
  then show ?thesis
    by (simp add: solver_eval)
qed

lemma find_None_upto:
  "(\<forall>i \<in> set [1..n - 1]. \<not> P i) \<Longrightarrow> find P [1..n - 1] = None"
  by (simp add: find_None_iff)

text \<open>
  Claim C5.  \<^verbatim>\<open>FindAltitudeEvent\<close> returns \<^verbatim>\<open>Result{OK: false}\<close> (it returns,
  and the result is a value, not an error) when the window is degenerate, \<open>start \<ge> end\<close>,
  and when no pair of consecutive samples brackets a crossing of the requested kind; and
  a sample count below 2 behaves as the sample count 2.
\<close>

theorem FindAltitudeEvent_not_found:
  "(\<not> Before start end \<longrightarrow>
      FindAltitudeEvent f start end targetDeg eventType steps tol = Some notFound)
   \<and> ((\<forall>i \<in> set [1..sampleCount steps - 1]. \<not> bracketAt f start end targetDeg eventType steps i) \<longrightarrow>
      FindAltitudeEvent f start end targetDeg eventType steps tol = Some notFound)
   \<and> (steps < 2 \<longrightarrow>
      FindAltitudeEvent f start end targetDeg eventType steps tol =
      FindAltitudeEvent f start end targetDeg eventType 2 tol)
   \<and> \<not> OK notFound"
proof (intro conjI impI)
  assume "\<not> Before start end"
  then show "FindAltitudeEvent f start end targetDeg eventType steps tol = Some notFound"
    by (simp add: FindAltitudeEvent_def)
next
  assume "\<forall>i \<in> set [1..sampleCount steps - 1]. \<not> bracketAt f start end targetDeg eventType steps i"
  then have "find (bracketAt f start end targetDeg eventType steps) [1..sampleCount steps - 1] = None"
    by (rule find_None_upto)
  then show "FindAltitudeEvent f start end targetDeg eventType steps tol = Some notFound"
    by (simp add: FindAltitudeEvent_find)
next
  assume "steps < 2"
  then show "FindAltitudeEvent f start end targetDeg eventType steps tol =
      FindAltitudeEvent f start end targetDeg eventType 2 tol"
    by (simp add: FindAltitudeEvent_def)
next
  show "\<not> OK notFound" by (simp add: notFound_def)
qed

lemma ramp_no_set: "\<forall>i \<in> set [1..sampleCount 3 - 1]. \<not> bracketAt ramp 0 100 (75/2) CrossingDown 3 i"
  by (simp add: sampleCount_def bracketAt_def sampleValue_def sampleTime_def sampleInterval_def
      solver_eval)

theorem FindAltitudeEvent_not_found_witness:
  "\<not> Before 5 5
   \<and> FindAltitudeEvent ramp 5 5 (75/2) CrossingUp 3 4 = Some notFound
   \<and> FindAltitudeEvent ramp 0 100 (75/2) CrossingDown 3 4 = Some notFound
   \<and> (1::int) < 2
   \<and> FindAltitudeEvent ramp 0 100 (75/2) CrossingUp 1 4 = FindAltitudeEvent ramp 0 100 (75/2) CrossingUp 2 4"
  using FindAltitudeEvent_not_found[of 5 5 ramp "75/2" CrossingUp 3 4]
    FindAltitudeEvent_not_found[of 0 100 ramp "75/2" CrossingDown 3 4]
    FindAltitudeEvent_not_found[of 0 100 ramp "75/2" CrossingUp 1 4]
    ramp_no_set
  by (simp add: Before_def)

section \<open>Positions and phase: auxiliary facts\<close>

lemma Atan2_bounds: "- pi < Atan2 y x \<and> Atan2 y x \<le> pi"
proof -
  have b: "- (pi / 2) < arctan (y / x)" "arctan (y / x) < pi / 2"
    by (rule arctan_lbound, rule arctan_ubound)
  consider "x > 0" | "x < 0" "y \<ge> 0" | "x < 0" "y < 0" | "x = 0"
    by linarith
  then show ?thesis
  proof cases
    case 1
    then show ?thesis using b pi_gt_zero by (simp add: Atan2_def)
  next
    case 2
    then have "y / x \<le> 0" by (simp add: divide_nonneg_neg)
    then have "arctan (y / x) \<le> 0" by (simp add: arctan_le_zero_iff)
    then show ?thesis using 2 b by (simp add: Atan2_def)
  next
    case 3
    then have "0 < y / x" by (simp add: divide_neg_neg)
    then have "0 < arctan (y / x)" by (simp add: zero_less_arctan_iff)
    then show ?thesis using 3 b by (simp add: Atan2_def)
  next
    case 4
    have v: "Atan2 y x = pi / 2 \<or> Atan2 y x = - (pi / 2) \<or> Atan2 y x = 0"
      using 4 by (simp add: Atan2_def)
    have "0 < pi" by (rule pi_gt_zero)
    with v show ?thesis by (elim disjE) (intro conjI; linarith)+
  qed
qed

lemma sun_z_bound: "\<bar>sin e * sin l\<bar> \<le> (1::real)"
proof -
  have "\<bar>sin e * sin l\<bar> = \<bar>sin e\<bar> * \<bar>sin l\<bar>" by (rule abs_mult)
  also have "\<dots> \<le> 1 * 1"
    by (intro mult_mono) auto
  finally show ?thesis by simp
qed

lemma moon_z_bound: "\<bar>cos b * sin l * sin e + sin b * cos e\<bar> \<le> (1::real)"
proof -
  define u where "u = cos b * sin l"
  define v where "v = sin b"
  define s where "s = sin e"
  define c where "c = cos e"
  have sc: "s\<^sup>2 + c\<^sup>2 = 1" by (simp add: s_def c_def)
  have "(sin l)\<^sup>2 \<le> 1" using abs_sin_le_one[of l] by (simp add: abs_square_le_1)
  then have "(cos b)\<^sup>2 * (sin l)\<^sup>2 \<le> (cos b)\<^sup>2 * 1"
    by (intro mult_left_mono) auto
  moreover have "(sin b)\<^sup>2 + (cos b)\<^sup>2 = 1" by (rule sin_cos_squared_add)
  ultimately have "(cos b)\<^sup>2 * (sin l)\<^sup>2 + (sin b)\<^sup>2 \<le> 1" by linarith
  then have uv: "u\<^sup>2 + v\<^sup>2 \<le> 1"
    by (simp add: u_def v_def power_mult_distrib)
  have "(u * s + v * c)\<^sup>2 + (u * c - v * s)\<^sup>2 = (u\<^sup>2 + v\<^sup>2) * (s\<^sup>2 + c\<^sup>2)"
    by (simp add: power2_eq_square algebra_simps)
  moreover have "0 \<le> (u * c - v * s)\<^sup>2" by (rule zero_le_power2)
  ultimately have "(u * s + v * c)\<^sup>2 \<le> (u\<^sup>2 + v\<^sup>2) * (s\<^sup>2 + c\<^sup>2)" by linarith
  then have "(u * s + v * c)\<^sup>2 \<le> u\<^sup>2 + v\<^sup>2"
    using sc by simp
  then have "(u * s + v * c)\<^sup>2 \<le> 1" using uv by linarith
  then have "\<bar>u * s + v * c\<bar> \<le> 1" by (simp add: abs_square_le_1)
  then show ?thesis by (simp add: u_def v_def s_def c_def)
qed

lemma sun_vector_z: "\<bar>snd (snd (sun_equatorialVector t))\<bar> \<le> 1"
  by (simp add: sun_equatorialVector_def Let_def sun_z_bound)

lemma moon_vector_z: "\<bar>snd (snd (moon_equatorialVector t))\<bar> \<le> 1"
  by (simp add: moon_equatorialVector_def Let_def moon_z_bound)

lemma round64_checks:
  "round64 (1 / 10) = 3602879701896397 / 2 ^ 55"
  "round64 (1 / 3) = 6004799503160661 / 2 ^ 54"
  "round64 360 = 360"
  by code_simp+

lemma Rad2Deg64_checks:
  "Rad2Deg64 (pi64 / 2) = 90"
  "Rad2Deg64 pi64 = 180"
  "Rad2Deg64 (2 * pi64) = 360"
  by code_simp+

lemma wrap_rounds_to_full_turn:
  assumes "- (1 / 2 ^ 51) \<le> ra" "ra < 0"
  shows "round64 (ra + 2 * pi64) = 2 * pi64"
proof -
  define x where "x = ra + 2 * pi64"
  define N :: int where "N = 7074237752028440"
  have p: "2 * pi64 = of_int N / 2 ^ 50" by (simp add: pi64_def N_def)
  have small: "(1::real) / 2 ^ 51 < 1 / 10" by simp
  have six: "6 < 2 * pi64 - 1 / 10" "2 * pi64 < 7" by (simp_all add: pi64_def)
  have x6: "6 \<le> x" "x < 7" using assms six small by (simp_all add: x_def)
  then have fl: "\<lfloor>\<bar>x\<bar>\<rfloor> = 6" by (simp add: floor_eq_iff)
  have "bitlen 6 = 3" by code_simp
  then have e: "exponent64 x = 2" using x6 fl by (simp add: exponent64_def)
  have ulp: "(2::real) powi (max 2 (- 1022) - 52) = 1 / 2 ^ 50"
    by (simp add: power_int_def inverse_eq_divide power_one_over)
  define q where "q = x * 2 ^ 50"
  have q_eq: "q = ra * 2 ^ 50 + of_int N"
    by (simp add: q_def x_def pi64_def N_def algebra_simps)
  have "- (1 / 2) \<le> ra * 2 ^ 50" "ra * 2 ^ 50 < 0"
    using assms by (simp_all add: field_simps)
  then have qb: "of_int N - 1 / 2 \<le> q" "q < of_int N"
    unfolding q_eq by linarith+
  then have f: "\<lfloor>q\<rfloor> = N - 1" by (simp add: floor_eq_iff)
  have odd: "odd (N - 1)" by (simp add: N_def)
  have "roundHalfEven q = N"
    using qb f odd by (auto simp: roundHalfEven_def Let_def)
  moreover have "x / (1 / 2 ^ 50) = q" by (simp add: q_def)
  moreover have "x \<noteq> 0" using x6 by simp
  ultimately have "round64 x = of_int N * (1 / 2 ^ 50)"
    using e ulp by (simp add: round64_def Let_def)
  then show ?thesis by (simp add: x_def p)
qed

lemma tiny_negative_gives_360:
  assumes "- (1 / 2 ^ 51) \<le> ra" "ra < 0"
  shows "RA (equatorialOfAngles ra dec) = 360"
  using Rad2Deg64_checks(3) assms
  by (simp add: equatorialOfAngles_def Let_def wrap_rounds_to_full_turn)

lemma atan2_values_binary64:
  "round64 moonAtan2Value = moonAtan2Value"
  "round64 sunAtan2Value = sunAtan2Value"
  by code_simp+

text \<open>
  Claim C8 does not hold of the code.  When \<^verbatim>\<open>math.Atan2\<close> returns a negative value
  smaller in magnitude than half the spacing of the binary64 values at \<open>2 * pi\<close>, the
  addition \<^verbatim>\<open>ra += 2 * math.Pi\<close> rounds to \<open>2 * pi\<close> itself, and \<^verbatim>\<open>Rad2Deg\<close>
  turns that into exactly 360 degrees, which is outside \<open>[0, 360)\<close>
  (\<open>tiny_negative_gives_360\<close>).  Both values below are negative binary64 values, returned
  by \<^verbatim>\<open>math.Atan2\<close> in the Moon's and in the Sun's position function, and for both
  the right ascension that the last statements of the function compute is 360.
\<close>

theorem right_ascension_reaches_360:
  "moonAtan2Value < 0 \<and> round64 moonAtan2Value = moonAtan2Value
   \<and> round64 (moonAtan2Value + 2 * pi64) = 2 * pi64
   \<and> RA (equatorialOfAngles moonAtan2Value 0) = 360
   \<and> sunAtan2Value < 0 \<and> round64 sunAtan2Value = sunAtan2Value
   \<and> round64 (sunAtan2Value + 2 * pi64) = 2 * pi64
   \<and> RA (equatorialOfAngles sunAtan2Value 0) = 360"
proof -
  have m: "- (1 / 2 ^ 51) \<le> moonAtan2Value" "moonAtan2Value < 0"
    by (simp_all add: moonAtan2Value_def)
  have s: "- (1 / 2 ^ 51) \<le> sunAtan2Value" "sunAtan2Value < 0"
    by (simp_all add: sunAtan2Value_def)
  show ?thesis
    using m(2) s(2) atan2_values_binary64
      wrap_rounds_to_full_turn[OF m] wrap_rounds_to_full_turn[OF s]
      tiny_negative_gives_360[OF m, of 0] tiny_negative_gives_360[OF s, of 0]
    by simp
qed

lemma clampedCosPsi_bounds: "- 1 \<le> clampedCosPsi u \<and> clampedCosPsi u \<le> 1"
  by (simp add: clampedCosPsi_def Let_def)

lemma elongation_bounds:
  assumes "- 1 \<le> c" "c \<le> 1"
  shows "0 \<le> Rad2Deg (arccos c)" "Rad2Deg (arccos c) \<le> 180" "cos (Deg2Rad (Rad2Deg (arccos c))) = c"
proof -
  have b: "0 \<le> arccos c \<and> arccos c \<le> pi" using assms by (rule arccos_bounded)
  show "0 \<le> Rad2Deg (arccos c)" "Rad2Deg (arccos c) \<le> 180"
    using b pi_gt_zero by (simp_all add: Rad2Deg_def field_simps)
  have "Deg2Rad (Rad2Deg (arccos c)) = arccos c"
    using pi_gt_zero by (simp add: Deg2Rad_def Rad2Deg_def)
  then show "cos (Deg2Rad (Rad2Deg (arccos c))) = c"
    using assms by (simp add: cos_arccos)
qed

text \<open>
  Claim C7.  For every instant, \<^verbatim>\<open>MoonPhaseAt\<close> returns a phase and no error; the
  clamped cosine of the Sun-Moon separation lies in \<open>[-1, 1]\<close>; the elongation is its
  arccosine in degrees and lies in \<open>[0, 180]\<close>; and the illuminated fraction is
  \<open>(1 - cos \<psi>) / 2\<close>, for the clamped cosine and equally for the cosine of the reported
  elongation, and lies in \<open>[0, 1]\<close>.
\<close>

theorem MoonPhaseAt_bounds:
  "\<exists>p. MoonPhaseAt t = Inr p
     \<and> - 1 \<le> clampedCosPsi (instant t) \<and> clampedCosPsi (instant t) \<le> 1
     \<and> Elongation p = Rad2Deg (arccos (clampedCosPsi (instant t)))
     \<and> Fraction p = (1 - clampedCosPsi (instant t)) / 2
     \<and> Fraction p = (1 - cos (Deg2Rad (Elongation p))) / 2
     \<and> 0 \<le> Fraction p \<and> Fraction p \<le> 1
     \<and> 0 \<le> Elongation p \<and> Elongation p \<le> 180"
proof -
  define c where "c = clampedCosPsi (instant t)"
  have c: "- 1 \<le> c" "c \<le> 1" using clampedCosPsi_bounds[of "instant t"] by (simp_all add: c_def)
  have f: "\<not> 0.5 * (1 - c) < 0" "\<not> 0.5 * (1 - c) > 1" using c by simp_all
  show ?thesis
    unfolding MoonPhaseAt_def Let_def toUTC_def
    using c f elongation_bounds[OF c] by (simp add: c_def[symmetric])
qed

lemma horizon_closer_is_higher:
  "0 < d \<Longrightarrow> d < 384400 \<Longrightarrow> ApparentHorizonAltitudeMoon d > - 0.90"
  by (simp add: ApparentHorizonAltitudeMoon_def Let_def field_simps)

lemma horizon_farther_is_lower:
  "384400 < d \<Longrightarrow> ApparentHorizonAltitudeMoon d < - 0.90"
  by (simp add: ApparentHorizonAltitudeMoon_def Let_def field_simps)

text \<open>
  Claim C1 does not hold of the code.  The function returns
  \<^verbatim>\<open>baseHorizon - kScale*frac\<close>, so a Moon closer than the mean distance
  (\<open>frac < 0\<close>) gets a horizon above -0.90 degrees and a farther Moon one below it, the
  opposite of what the claim and the comments of the function say.  At 360000 km the
  result is about -0.862 degrees, at 400000 km about -0.924 degrees.
\<close>

theorem ApparentHorizonAltitudeMoon_direction:
  "ApparentHorizonAltitudeMoon 360000 = - 0.90 + 0.6 * (24400 / 384400)
   \<and> ApparentHorizonAltitudeMoon 360000 > - 0.90
   \<and> ApparentHorizonAltitudeMoon 400000 = - 0.90 - 0.6 * (15600 / 384400)
   \<and> ApparentHorizonAltitudeMoon 400000 < - 0.90"
  by (simp add: ApparentHorizonAltitudeMoon_def Let_def)

lemma altFuncSet_altFuncRise:
  "altFuncSet a lat lon t = altFuncRise a lat lon t - moonSetExtraDropDeg"
  by (simp add: altFuncSet_def altFuncRise_def Let_def)

text \<open>
  Claim C2, as amended.  For every instant and observer, the set-detection function uses
  the distance-dependent apparent horizon altitude plus the fixed 0.16 degrees
  (\<open>horizonSet = horizonRise + 0.16\<close>), so that
  \<open>altFuncSet(t) = altFuncRise(t) - 0.16\<close>: the Moon is taken to have set while it
  is still 0.16 degrees above the horizon used for its rise.
\<close>

theorem moon_set_horizon:
  "moonSetExtraDropDeg = 0.16
   \<and> altFuncRise a lat lon t = a lat lon t - horizonRise t
   \<and> altFuncSet a lat lon t = a lat lon t - horizonSet t
   \<and> horizonSet t = horizonRise t + 0.16
   \<and> altFuncSet a lat lon t = altFuncRise a lat lon t - 0.16"
  by (simp add: altFuncSet_def altFuncRise_def horizonRise_def horizonSet_def Let_def
      moonSetExtraDropDeg_def)

text \<open>
  Claim C2 as stated, with the 0.16 degrees subtracted from the horizon and added to the
  altitude function, fails at every instant; here for the altitude model that is
  constantly zero, at the instant 0.
\<close>

theorem moon_set_horizon_counterexample:
  "altFuncSet flatAltitude 0 0 0 \<noteq> altFuncRise flatAltitude 0 0 0 + 0.16
   \<and> horizonSet 0 \<noteq> horizonRise 0 - 0.16"
  by (simp add: altFuncSet_altFuncRise horizonRise_def horizonSet_def moonSetExtraDropDeg_def)

section \<open>The orchestrator\<close>

lemma FindAltitudeEvent_total:
  "1 \<le> tol \<Longrightarrow> \<exists>r. FindAltitudeEvent f start end targetDeg eventType steps tol = Some r"
  using FindAltitudeEvent_returns[of tol f start "end" targetDeg eventType steps] by blast

lemma sunRiseSet_outcome:
  "\<exists>riseRes setRes.
      FindAltitudeEvent (sunAltitude (Lat loc) (Lon loc)) (localDayStart date) (localDayEnd date)
        (90 - StandardZenith) CrossingUp 48 (30 * Second) = Some riseRes
    \<and> FindAltitudeEvent (sunAltitude (Lat loc) (Lon loc)) (localDayStart date) (localDayEnd date)
        (90 - StandardZenith) CrossingDown 48 (30 * Second) = Some setRes
    \<and> sunRiseSet sunAltitude loc date =
        Some (if \<not> OK riseRes \<and> \<not> OK setRes then Inl ErrNoRiseNoSet
              else Inr \<lparr>Rise = (if OK riseRes then pinToDate date (Time riseRes) else zeroGoTime),
                        Set = (if OK setRes then pinToDate date (Time setRes) else zeroGoTime)\<rparr>)"
proof -
  have tol: "1 \<le> 30 * Second" by (simp add: Second_def)
  obtain riseRes where r: "FindAltitudeEvent (sunAltitude (Lat loc) (Lon loc)) (localDayStart date)
      (localDayEnd date) (90 - StandardZenith) CrossingUp 48 (30 * Second) = Some riseRes"
    using FindAltitudeEvent_total[OF tol] by blast
  obtain setRes where s: "FindAltitudeEvent (sunAltitude (Lat loc) (Lon loc)) (localDayStart date)
      (localDayEnd date) (90 - StandardZenith) CrossingDown 48 (30 * Second) = Some setRes"
    using FindAltitudeEvent_total[OF tol] by blast
  have "sunRiseSet sunAltitude loc date =
        Some (if \<not> OK riseRes \<and> \<not> OK setRes then Inl ErrNoRiseNoSet
              else Inr \<lparr>Rise = (if OK riseRes then pinToDate date (Time riseRes) else zeroGoTime),
                        Set = (if OK setRes then pinToDate date (Time setRes) else zeroGoTime)\<rparr>)"
    using r s
    unfolding sunRiseSet_def sun_RiseSetForDate_def sun_eventsForDateAtAltitude_def
      localDayStart_def localDayEnd_def pinToDate_def Let_def split_beta
    by simp
  with r s show ?thesis by blast
qed

lemma moonRiseSet_outcome:
  "\<exists>riseRes setRes.
      FindAltitudeEvent (altFuncRise moonAltitude (Lat loc) (Lon loc)) (localDayStart date)
        (localDayEnd date) 0 CrossingUp 48 (30 * Second) = Some riseRes
    \<and> FindAltitudeEvent (altFuncSet moonAltitude (Lat loc) (Lon loc)) (localDayStart date)
        (localDayEnd date) 0 CrossingDown 48 (30 * Second) = Some setRes
    \<and> moonRiseSet moonAltitude loc date =
        Some (if \<not> OK riseRes \<and> \<not> OK setRes then Inl ErrNoRiseNoSet
              else Inr \<lparr>Rise = (if OK riseRes then pinToDate date (Time riseRes) else zeroGoTime),
                        Set = (if OK setRes then pinToDate date (Time setRes) else zeroGoTime)\<rparr>)"
proof -
  have tol: "1 \<le> 30 * Second" by (simp add: Second_def)
  obtain riseRes where r: "FindAltitudeEvent (altFuncRise moonAltitude (Lat loc) (Lon loc))
      (localDayStart date) (localDayEnd date) 0 CrossingUp 48 (30 * Second) = Some riseRes"
    using FindAltitudeEvent_total[OF tol] by blast
  obtain setRes where s: "FindAltitudeEvent (altFuncSet moonAltitude (Lat loc) (Lon loc))
      (localDayStart date) (localDayEnd date) 0 CrossingDown 48 (30 * Second) = Some setRes"
    using FindAltitudeEvent_total[OF tol] by blast
  have "moonRiseSet moonAltitude loc date =
        Some (if \<not> OK riseRes \<and> \<not> OK setRes then Inl ErrNoRiseNoSet
              else Inr \<lparr>Rise = (if OK riseRes then pinToDate date (Time riseRes) else zeroGoTime),
                        Set = (if OK setRes then pinToDate date (Time setRes) else zeroGoTime)\<rparr>)"
    using r s
    unfolding moonRiseSet_def moon_RiseSetForDate_def
      localDayStart_def localDayEnd_def pinToDate_def Let_def split_beta
    by simp
  with r s show ?thesis by blast
qed

text \<open>
  Claim C6.  For every location and date, and for the Sun and for the Moon, both searches
  of the local day return, and \<^verbatim>\<open>RiseSetFor\<close> returns the error
  \<^verbatim>\<open>ErrNoRiseNoSet\<close> exactly when neither search finds a crossing.  Otherwise it
  returns a \<^verbatim>\<open>RiseSet\<close> in which each found event is the event, pinned to the
  requested date, and an event that was not found is left at the zero time.
\<close>

theorem RiseSetFor_NoRiseOrSet:
  "(\<exists>riseRes setRes.
      FindAltitudeEvent (sunAltitude (Lat loc) (Lon loc)) (localDayStart date) (localDayEnd date)
        (90 - StandardZenith) CrossingUp 48 (30 * Second) = Some riseRes
    \<and> FindAltitudeEvent (sunAltitude (Lat loc) (Lon loc)) (localDayStart date) (localDayEnd date)
        (90 - StandardZenith) CrossingDown 48 (30 * Second) = Some setRes
    \<and> (RiseSetFor sunAltitude moonAltitude Sun loc date = Some (Inl ErrNoRiseNoSet)
          \<longleftrightarrow> \<not> OK riseRes \<and> \<not> OK setRes)
    \<and> RiseSetFor sunAltitude moonAltitude Sun loc date =
        Some (if \<not> OK riseRes \<and> \<not> OK setRes then Inl ErrNoRiseNoSet
              else Inr \<lparr>Rise = (if OK riseRes then pinToDate date (Time riseRes) else zeroGoTime),
                        Set = (if OK setRes then pinToDate date (Time setRes) else zeroGoTime)\<rparr>))
   \<and> (\<exists>riseRes setRes.
      FindAltitudeEvent (altFuncRise moonAltitude (Lat loc) (Lon loc)) (localDayStart date)
        (localDayEnd date) 0 CrossingUp 48 (30 * Second) = Some riseRes
    \<and> FindAltitudeEvent (altFuncSet moonAltitude (Lat loc) (Lon loc)) (localDayStart date)
        (localDayEnd date) 0 CrossingDown 48 (30 * Second) = Some setRes
    \<and> (RiseSetFor sunAltitude moonAltitude Moon loc date = Some (Inl ErrNoRiseNoSet)
          \<longleftrightarrow> \<not> OK riseRes \<and> \<not> OK setRes)
    \<and> RiseSetFor sunAltitude moonAltitude Moon loc date =
        Some (if \<not> OK riseRes \<and> \<not> OK setRes then Inl ErrNoRiseNoSet
              else Inr \<lparr>Rise = (if OK riseRes then pinToDate date (Time riseRes) else zeroGoTime),
                        Set = (if OK setRes then pinToDate date (Time setRes) else zeroGoTime)\<rparr>))"
proof (rule conjI)
  from sunRiseSet_outcome[of sunAltitude loc date] obtain riseRes setRes where
    h: "FindAltitudeEvent (sunAltitude (Lat loc) (Lon loc)) (localDayStart date) (localDayEnd date)
        (90 - StandardZenith) CrossingUp 48 (30 * Second) = Some riseRes"
      "FindAltitudeEvent (sunAltitude (Lat loc) (Lon loc)) (localDayStart date) (localDayEnd date)
        (90 - StandardZenith) CrossingDown 48 (30 * Second) = Some setRes"
      "sunRiseSet sunAltitude loc date =
        Some (if \<not> OK riseRes \<and> \<not> OK setRes then Inl ErrNoRiseNoSet
              else Inr \<lparr>Rise = (if OK riseRes then pinToDate date (Time riseRes) else zeroGoTime),
                        Set = (if OK setRes then pinToDate date (Time setRes) else zeroGoTime)\<rparr>)"
    by blast
  show "\<exists>riseRes setRes.
      FindAltitudeEvent (sunAltitude (Lat loc) (Lon loc)) (localDayStart date) (localDayEnd date)
        (90 - StandardZenith) CrossingUp 48 (30 * Second) = Some riseRes
    \<and> FindAltitudeEvent (sunAltitude (Lat loc) (Lon loc)) (localDayStart date) (localDayEnd date)
        (90 - StandardZenith) CrossingDown 48 (30 * Second) = Some setRes
    \<and> (RiseSetFor sunAltitude moonAltitude Sun loc date = Some (Inl ErrNoRiseNoSet)
          \<longleftrightarrow> \<not> OK riseRes \<and> \<not> OK setRes)
    \<and> RiseSetFor sunAltitude moonAltitude Sun loc date =
        Some (if \<not> OK riseRes \<and> \<not> OK setRes then Inl ErrNoRiseNoSet
              else Inr \<lparr>Rise = (if OK riseRes then pinToDate date (Time riseRes) else zeroGoTime),
                        Set = (if OK setRes then pinToDate date (Time setRes) else zeroGoTime)\<rparr>)"
    by (rule exI[of _ riseRes], rule exI[of _ setRes]) (simp add: h RiseSetFor_def)
next
  from moonRiseSet_outcome[of moonAltitude loc date] obtain riseRes setRes where
    h: "FindAltitudeEvent (altFuncRise moonAltitude (Lat loc) (Lon loc)) (localDayStart date)
        (localDayEnd date) 0 CrossingUp 48 (30 * Second) = Some riseRes"
      "FindAltitudeEvent (altFuncSet moonAltitude (Lat loc) (Lon loc)) (localDayStart date)
        (localDayEnd date) 0 CrossingDown 48 (30 * Second) = Some setRes"
      "moonRiseSet moonAltitude loc date =
        Some (if \<not> OK riseRes \<and> \<not> OK setRes then Inl ErrNoRiseNoSet
              else Inr \<lparr>Rise = (if OK riseRes then pinToDate date (Time riseRes) else zeroGoTime),
                        Set = (if OK setRes then pinToDate date (Time setRes) else zeroGoTime)\<rparr>)"
    by blast
  show "\<exists>riseRes setRes.
      FindAltitudeEvent (altFuncRise moonAltitude (Lat loc) (Lon loc)) (localDayStart date)
        (localDayEnd date) 0 CrossingUp 48 (30 * Second) = Some riseRes
    \<and> FindAltitudeEvent (altFuncSet moonAltitude (Lat loc) (Lon loc)) (localDayStart date)
        (localDayEnd date) 0 CrossingDown 48 (30 * Second) = Some setRes
    \<and> (RiseSetFor sunAltitude moonAltitude Moon loc date = Some (Inl ErrNoRiseNoSet)
          \<longleftrightarrow> \<not> OK riseRes \<and> \<not> OK setRes)
    \<and> RiseSetFor sunAltitude moonAltitude Moon loc date =
        Some (if \<not> OK riseRes \<and> \<not> OK setRes then Inl ErrNoRiseNoSet
              else Inr \<lparr>Rise = (if OK riseRes then pinToDate date (Time riseRes) else zeroGoTime),
                        Set = (if OK setRes then pinToDate date (Time setRes) else zeroGoTime)\<rparr>)"
    by (rule exI[of _ riseRes], rule exI[of _ setRes]) (simp add: h RiseSetFor_def Sun_def Moon_def)
qed

lemma day_bounds:
  "localDayStart requestedDate = 1268537400000000000"
  "localDayEnd requestedDate = 1268623800000000000"
  by code_simp+

lemma late_rise:
  "FindAltitudeEvent (lateRise 0 0) 1268537400000000000 1268623800000000000
     (90 - StandardZenith) CrossingUp 48 (30 * Second)
   = Some \<lparr>Time = 1268622004787234022, OK = True\<rparr>"
  by (simp add: FindAltitudeEvent_def Before_def Sub_def maxDuration_def minDuration_def
      quot_def Add_def hasCrossing_def CrossingUp_def CrossingDown_def bisect_def Let_def
      notFound_def lateRise_def lateEvent_def Second_def StandardZenith_def bisect_loop.simps)

lemma late_set:
  "FindAltitudeEvent (lateRise 0 0) 1268537400000000000 1268623800000000000
     (90 - StandardZenith) CrossingDown 48 (30 * Second)
   = Some notFound"
  by (simp add: FindAltitudeEvent_def Before_def Sub_def maxDuration_def minDuration_def
      quot_def Add_def hasCrossing_def CrossingUp_def CrossingDown_def bisect_def Let_def
      notFound_def lateRise_def lateEvent_def Second_def StandardZenith_def bisect_loop.simps)

lemma late_pin:
  "DateOf (pinToDate requestedDate 1268622004787234022) = (2010, 3, 13)"
  "HourOf (pinToDate requestedDate 1268622004787234022) = 23"
  "MinuteOf (pinToDate requestedDate 1268622004787234022) = 30"
  "DateOf (In \<lparr>instant = 1268622004787234022, zone = UTC\<rparr> stJohns) = (2010, 3, 15)"
  by code_simp+

lemma late_window:
  "DateOf requestedDate = (2010, 3, 14)"
  "localDayStart requestedDate \<le> lateEvent"
  "lateEvent < localDayEnd requestedDate"
  "DateOf (In \<lparr>instant = lateEvent, zone = UTC\<rparr> stJohns) = (2010, 3, 15)"
  "HourOf (In \<lparr>instant = lateEvent, zone = UTC\<rparr> stJohns) = 0"
  "MinuteOf (In \<lparr>instant = lateEvent, zone = UTC\<rparr> stJohns) = 30"
  "DateOf (withLocalDate (In \<lparr>instant = lateEvent, zone = UTC\<rparr> stJohns) 2010 3 14) = (2010, 3, 13)"
  "HourOf (withLocalDate (In \<lparr>instant = lateEvent, zone = UTC\<rparr> stJohns) 2010 3 14) = 23"
  "MinuteOf (withLocalDate (In \<lparr>instant = lateEvent, zone = UTC\<rparr> stJohns) 2010 3 14) = 30"
  by code_simp+

lemma late_sunRiseSet:
  "sunRiseSet lateRise equator requestedDate =
     Some (Inr \<lparr>Rise = pinToDate requestedDate 1268622004787234022, Set = zeroGoTime\<rparr>)"
proof -
  from sunRiseSet_outcome[of lateRise equator requestedDate] obtain riseRes setRes where
    r: "FindAltitudeEvent (lateRise (Lat equator) (Lon equator)) (localDayStart requestedDate)
          (localDayEnd requestedDate) (90 - StandardZenith) CrossingUp 48 (30 * Second) = Some riseRes"
    and d: "FindAltitudeEvent (lateRise (Lat equator) (Lon equator)) (localDayStart requestedDate)
          (localDayEnd requestedDate) (90 - StandardZenith) CrossingDown 48 (30 * Second) = Some setRes"
    and o: "sunRiseSet lateRise equator requestedDate =
        Some (if \<not> OK riseRes \<and> \<not> OK setRes then Inl ErrNoRiseNoSet
              else Inr \<lparr>Rise = (if OK riseRes then pinToDate requestedDate (Time riseRes)
                                else zeroGoTime),
                        Set = (if OK setRes then pinToDate requestedDate (Time setRes)
                               else zeroGoTime)\<rparr>)"
    by blast
  have "riseRes = \<lparr>Time = 1268622004787234022, OK = True\<rparr>"
    using r late_rise by (simp add: equator_def day_bounds)
  moreover have "setRes = notFound"
    using d late_set by (simp add: equator_def day_bounds)
  ultimately show ?thesis using o by (simp add: notFound_def)
qed

text \<open>
  Claim C9 does not hold of the code.  The request is for 14 March 2010 in the zone
  America/St\_Johns, where that day has no wall clock time between 00:01 and 01:01.  The
  search window is the 24 hours from local midnight, so it reaches 01:00 on 15 March; an
  event found at 00:30 on 15 March (here the rise of the test altitude \<open>lateRise\<close>, found
  by the solver at 00:30:04) is pinned to the wall clock time 00:30 on 14 March, which does
  not exist, and \<^verbatim>\<open>time.Date\<close> resolves it to 23:30 on 13 March.  The returned rise
  has neither the requested calendar date nor the clock time of the event.
\<close>

theorem RiseSetFor_pinned_into_clock_gap:
  "DateOf requestedDate = (2010, 3, 14)
   \<and> RiseSetFor lateRise lateRise Sun equator requestedDate =
       Some (Inr \<lparr>Rise = pinToDate requestedDate 1268622004787234022, Set = zeroGoTime\<rparr>)
   \<and> DateOf (In \<lparr>instant = 1268622004787234022, zone = UTC\<rparr> stJohns) = (2010, 3, 15)
   \<and> DateOf (pinToDate requestedDate 1268622004787234022) = (2010, 3, 13)
   \<and> HourOf (pinToDate requestedDate 1268622004787234022) = 23
   \<and> MinuteOf (pinToDate requestedDate 1268622004787234022) = 30
   \<and> localDayStart requestedDate \<le> lateEvent \<and> lateEvent < localDayEnd requestedDate
   \<and> HourOf (In \<lparr>instant = lateEvent, zone = UTC\<rparr> stJohns) = 0
   \<and> MinuteOf (In \<lparr>instant = lateEvent, zone = UTC\<rparr> stJohns) = 30
   \<and> DateOf (withLocalDate (In \<lparr>instant = lateEvent, zone = UTC\<rparr> stJohns) 2010 3 14) = (2010, 3, 13)
   \<and> HourOf (withLocalDate (In \<lparr>instant = lateEvent, zone = UTC\<rparr> stJohns) 2010 3 14) = 23
   \<and> MinuteOf (withLocalDate (In \<lparr>instant = lateEvent, zone = UTC\<rparr> stJohns) 2010 3 14) = 30"
  using late_sunRiseSet late_pin late_window by (simp add: RiseSetFor_def)

end
